theory Spec2Isabelle
  imports Main
begin

section \<open>Python values and dictionaries\<close>

text \<open>
  The scalar values a caller passes as keyword arguments or configuration: \<^verbatim>\<open>None\<close>,
  booleans, integers and strings. \<open>pyobj\<close> adds lists and string-keyed dictionaries: the
  values \<^verbatim>\<open>json.dumps\<close> accepts and \<^verbatim>\<open>resp.json()\<close> returns. A dictionary is an
  association list in insertion order with distinct keys.
\<close>

datatype pyval = PNone | PBool bool | PInt int | PStr string

datatype pyobj = Val pyval | Arr "pyobj list" | Obj "(string \<times> pyobj) list"

type_synonym kwargs = "(string \<times> pyval) list"

text \<open>\<^verbatim>\<open>'%s' % v\<close> for a scalar \<open>v\<close>, that is \<^verbatim>\<open>str(v)\<close>.\<close>

fun digits :: "nat \<Rightarrow> string" where
  "digits n =
     (if n < 10 then [''0123456789'' ! n]
      else digits (n div 10) @ [''0123456789'' ! (n mod 10)])"

fun py_str :: "pyval \<Rightarrow> string" where
  "py_str PNone = ''None''"
| "py_str (PBool b) = (if b then ''True'' else ''False'')"
| "py_str (PInt i) = (if i < 0 then CHR ''-'' # digits (nat (- i)) else digits (nat i))"
| "py_str (PStr s) = s"

text \<open>\<^verbatim>\<open>k in d\<close>, \<^verbatim>\<open>d.get(k, dflt)\<close>, \<^verbatim>\<open>d.setdefault(k, v)\<close> and \<^verbatim>\<open>d[k] = v\<close>.\<close>

definition contains :: "('k \<times> 'v) list \<Rightarrow> 'k \<Rightarrow> bool" where
  "contains d k \<longleftrightarrow> k \<in> set (map fst d)"

definition dict_get :: "('k \<times> 'v) list \<Rightarrow> 'k \<Rightarrow> 'v \<Rightarrow> 'v" where
  "dict_get d k dflt = (case map_of d k of None \<Rightarrow> dflt | Some v \<Rightarrow> v)"

definition setdefault :: "'k \<Rightarrow> 'v \<Rightarrow> ('k \<times> 'v) list \<Rightarrow> ('k \<times> 'v) list" where
  "setdefault k v d = (if contains d k then d else d @ [(k, v)])"

fun setitem :: "'k \<Rightarrow> 'v \<Rightarrow> ('k \<times> 'v) list \<Rightarrow> ('k \<times> 'v) list" where
  "setitem k v [] = [(k, v)]"
| "setitem k v ((k', v') # d) =
     (if k' = k then (k, v) # d else (k', v') # setitem k v d)"

text \<open>A keyword dictionary as the object handed to \<^verbatim>\<open>json.dumps\<close>.\<close>

definition dict_obj :: "kwargs \<Rightarrow> pyobj" where
  "dict_obj d = Obj (map (\<lambda>(k, v). (k, Val v)) d)"

text \<open>
  \<^verbatim>\<open>json.dumps(obj, indent=...)\<close> belongs to the Python standard library, and its output
  differs between Python versions. The client's functions take it as the parameter
  \<open>dumps\<close>: the first argument is \<^verbatim>\<open>indent\<close> (\<open>None\<close> when the call gives none).
\<close>

type_synonym dumps = "nat option \<Rightarrow> pyobj \<Rightarrow> string"

section \<open>The HTTP session\<close>

text \<open>
  What the client uses of a \<^verbatim>\<open>requests.Response\<close>: the status, the raw body, and the
  result of \<^verbatim>\<open>resp.json()\<close> (\<open>None\<close> when it raises \<^verbatim>\<open>ValueError\<close>).
\<close>

record response =
  status_code :: nat
  content :: string
  json_value :: "pyobj option"

text \<open>
  The exceptions of the program. \<open>HTTPError\<close> carries the response, as the exception of
  \<^verbatim>\<open>requests\<close> does; \<open>RequestException\<close> stands for what \<^verbatim>\<open>Session.request\<close> itself may
  raise (a timeout, a refused connection). \<open>TypeError\<close> is what Python raises when a call
  gives a parameter two values; its message depends on the version of Python and is left
  out.

  Modelled from the spec: \<open>UnimplementedException\<close> is the class of the module
  \<^verbatim>\<open>cachetclient.exceptions\<close>, which the base class raises; the module is not among the
  sources, the spec calls the failure \<^verbatim>\<open>Unimplemented\<close>.
\<close>

datatype py_error =
    KeyError string
  | AttributeError string
  | HTTPError response
  | RequestException string
  | UnimplementedException
  | TypeError

text \<open>
  The keyword arguments of \<^verbatim>\<open>Session.request\<close> that matter here; \<open>None\<close> is a key that is
  not passed. \<open>kw_params\<close> is the query string of \<^verbatim>\<open>requests\<close>, \<open>kw_data\<close> the body.
\<close>

record req_kwargs =
  kw_params :: "pyobj option"
  kw_data :: "pyobj option"
  kw_headers :: "kwargs option"
  kw_timeout :: "pyval option"
  kw_verify :: "pyval option"

record http_call =
  http_method :: string
  url :: string
  call_kwargs :: req_kwargs

text \<open>
  The network behind \<^verbatim>\<open>self.http\<close>: \<open>sent\<close> are the requests issued so far, oldest first,
  and \<open>remote\<close> is the answer of the remote service to a request after that history, or
  the exception \<^verbatim>\<open>Session.request\<close> raises.
\<close>

record world =
  remote :: "http_call list \<Rightarrow> http_call \<Rightarrow> py_error + response"
  sent :: "http_call list"

text \<open>
  \<^verbatim>\<open>Response.raise_for_status\<close> and \<^verbatim>\<open>Response.ok\<close> of \<^verbatim>\<open>requests\<close>: a status from 400 to
  599 raises, and \<^verbatim>\<open>ok\<close> is true when \<^verbatim>\<open>raise_for_status\<close> does not raise.
\<close>

definition raise_for_status :: "response \<Rightarrow> py_error + unit" where
  "raise_for_status resp =
     (if 400 \<le> status_code resp \<and> status_code resp < 600 then Inl (HTTPError resp)
      else Inr ())"

definition ok :: "response \<Rightarrow> bool" where
  "ok resp = (case raise_for_status resp of Inl _ \<Rightarrow> False | Inr _ \<Rightarrow> True)"

section \<open>client.py: CachetClient\<close>

text \<open>
  The attributes \<^verbatim>\<open>__init__\<close> sets. \<^verbatim>\<open>self.http\<close> is the session, whose state is the
  \<open>world\<close>. A call returns its result or exception, the instance as the call leaves it,
  and the world.
\<close>

record client =
  user_agent :: string
  endpoint :: pyval
  api_token :: pyval
  timeout :: pyval
  verify :: pyval

type_synonym 'a ret = "(py_error + 'a) \<times> client \<times> world"

definition CachetClient_init :: "kwargs \<Rightarrow> world \<Rightarrow> (py_error + client) \<times> world" where
  "CachetClient_init kwargs w =
     (case map_of kwargs ''endpoint'' of
        None \<Rightarrow> (Inl (KeyError ''Cachet API endpoint is required''), w)
      | Some e \<Rightarrow>
          (Inr \<lparr>user_agent = ''python-cachetclient'',
                endpoint = e,
                api_token = dict_get kwargs ''api_token'' PNone,
                timeout = dict_get kwargs ''timeout'' PNone,
                verify = dict_get kwargs ''verify'' PNone\<rparr>, w))"

text \<open>Lines 38 to 53 of \<^verbatim>\<open>_request\<close>: the keyword arguments as the session receives them.\<close>

definition request_kwargs :: "dumps \<Rightarrow> client \<Rightarrow> req_kwargs \<Rightarrow> req_kwargs" where
  "request_kwargs dumps self kwargs =
     (let kwargs =
            (if timeout self \<noteq> PNone \<and> kw_timeout kwargs = None
             then kwargs\<lparr>kw_timeout := Some (timeout self)\<rparr> else kwargs);
          kwargs =
            (if verify self \<noteq> PNone \<and> kw_verify kwargs = None
             then kwargs\<lparr>kw_verify := Some (verify self)\<rparr> else kwargs);
          headers = (case kw_headers kwargs of None \<Rightarrow> [] | Some h \<Rightarrow> h);
          headers = setitem ''User-Agent'' (PStr (user_agent self)) headers;
          headers = setitem ''Accept'' (PStr ''application/json'') headers;
          headers = setitem ''Content-Type'' (PStr ''application/json'') headers;
          headers =
            (if api_token self \<noteq> PNone
             then setitem ''X-Cachet-Token'' (api_token self) headers else headers);
          kwargs = kwargs\<lparr>kw_headers := Some headers\<rparr>
      in case kw_data kwargs of
           None \<Rightarrow> kwargs
         | Some d \<Rightarrow> kwargs\<lparr>kw_data := Some (Val (PStr (dumps None d)))\<rparr>)"

text \<open>Lines 59 to 62: \<^verbatim>\<open>resp.json()\<close>, with \<^verbatim>\<open>None\<close> when it raises \<^verbatim>\<open>ValueError\<close>.\<close>

definition decode_body :: "response \<Rightarrow> pyobj" where
  "decode_body resp = (case json_value resp of None \<Rightarrow> Val PNone | Some body \<Rightarrow> body)"

definition CachetClient_request ::
  "dumps \<Rightarrow> client \<Rightarrow> string \<Rightarrow> string \<Rightarrow> req_kwargs \<Rightarrow> world \<Rightarrow> (response \<times> pyobj) ret"
where
  "CachetClient_request dumps self url' method' kwargs w =
     (let call = \<lparr>http_method = method', url = url',
                  call_kwargs = request_kwargs dumps self kwargs\<rparr>;
          w' = w\<lparr>sent := sent w @ [call]\<rparr>
      in case remote w (sent w) call of
           Inl e \<Rightarrow> (Inl e, self, w')
         | Inr resp \<Rightarrow>
             (case (if \<not> ok resp then raise_for_status resp else Inr ()) of
                Inl e \<Rightarrow> (Inl e, self, w')
              | Inr _ \<Rightarrow> (Inr (resp, decode_body resp), self, w')))"

definition CachetClient_delete ::
  "dumps \<Rightarrow> client \<Rightarrow> string \<Rightarrow> req_kwargs \<Rightarrow> world \<Rightarrow> pyval ret"
where
  "CachetClient_delete dumps self path kwargs w =
     (let url = py_str (endpoint self) @ ''/'' @ path
      in case CachetClient_request dumps self url ''DELETE'' kwargs w of
           (Inl e, self, w) \<Rightarrow> (Inl e, self, w)
         | (Inr (response, data), self, w) \<Rightarrow> (Inr (PBool True), self, w))"

definition CachetClient_get ::
  "dumps \<Rightarrow> client \<Rightarrow> string \<Rightarrow> req_kwargs \<Rightarrow> world \<Rightarrow> pyval ret"
where
  "CachetClient_get dumps self path kwargs w =
     (let url = py_str (endpoint self) @ ''/'' @ path
      in case CachetClient_request dumps self url ''GET'' kwargs w of
           (Inl e, self, w) \<Rightarrow> (Inl e, self, w)
         | (Inr (response, data), self, w) \<Rightarrow> (Inr (PStr (dumps (Some 2) data)), self, w))"

definition CachetClient_post ::
  "dumps \<Rightarrow> client \<Rightarrow> string \<Rightarrow> req_kwargs \<Rightarrow> world \<Rightarrow> pyval ret"
where
  "CachetClient_post dumps self path kwargs w =
     (let url = py_str (endpoint self) @ ''/'' @ path
      in case CachetClient_request dumps self url ''POST'' kwargs w of
           (Inl e, self, w) \<Rightarrow> (Inl e, self, w)
         | (Inr (response, data), self, w) \<Rightarrow> (Inr (PStr (dumps (Some 2) data)), self, w))"

definition CachetClient_put ::
  "dumps \<Rightarrow> client \<Rightarrow> string \<Rightarrow> req_kwargs \<Rightarrow> world \<Rightarrow> pyval ret"
where
  "CachetClient_put dumps self path kwargs w =
     (let url = py_str (endpoint self) @ ''/'' @ path
      in case CachetClient_request dumps self url ''PUT'' kwargs w of
           (Inl e, self, w) \<Rightarrow> (Inl e, self, w)
         | (Inr (response, data), self, w) \<Rightarrow> (Inr (PStr (dumps (Some 2) data)), self, w))"

text \<open>
  The keyword arguments the resource classes pass on: none, as in \<^verbatim>\<open>self._get('ping')\<close>,
  or \<^verbatim>\<open>data=kwargs\<close>.
\<close>

definition no_kwargs :: req_kwargs where
  "no_kwargs = \<lparr>kw_params = None, kw_data = None, kw_headers = None,
                kw_timeout = None, kw_verify = None\<rparr>"

definition data_kwargs :: "kwargs \<Rightarrow> req_kwargs" where
  "data_kwargs kwargs = no_kwargs\<lparr>kw_data := Some (dict_obj kwargs)\<rparr>"

section \<open>cachet.py: the decorator and the argument check\<close>

text \<open>
  \<^verbatim>\<open>api_token_required(f, *args, **kwargs)\<close> wraps a method. The wrapper that the
  \<^verbatim>\<open>decorator\<close> library builds has the signature of the method and calls
  \<^verbatim>\<open>api_token_required(f, self, ...)\<close> with the positional parameters of the method in
  place and the \<^verbatim>\<open>**kwargs\<close> of the method as keywords: \<open>args\<close> are the positional arguments
  after the instance, \<open>kwargs\<close> the keywords. A keyword named \<^verbatim>\<open>f\<close> gives the parameter \<^verbatim>\<open>f\<close>
  a second value, so the call raises \<^verbatim>\<open>TypeError\<close> before the body runs. \<^verbatim>\<open>args[0]\<close> is
  the instance, which always has the attribute \<^verbatim>\<open>api_token\<close> (\<^verbatim>\<open>__init__\<close> sets it), so
  the \<^verbatim>\<open>except\<close> branch only re-raises the error of the \<^verbatim>\<open>try\<close> branch.
\<close>

definition api_token_required ::
  "(client \<Rightarrow> 'a \<Rightarrow> kwargs \<Rightarrow> world \<Rightarrow> 'b ret) \<Rightarrow> client \<Rightarrow> 'a \<Rightarrow> kwargs \<Rightarrow> world \<Rightarrow> 'b ret"
where
  "api_token_required f self args kwargs w =
     (if contains kwargs ''f'' then (Inl TypeError, self, w)
      else if api_token self = PNone
      then (Inl (AttributeError ''Parameter api_token is required.''), self, w)
      else f self args kwargs w)"

fun check_required_args :: "string list \<Rightarrow> kwargs \<Rightarrow> py_error + bool" where
  "check_required_args [] args = Inr True"
| "check_required_args (arg # required_args) args =
     (if \<not> contains args arg then Inl (KeyError (''Required argument: '' @ arg))
      else check_required_args required_args args)"

text \<open>\<^verbatim>\<open>kwargs['id']\<close>: a missing key raises \<^verbatim>\<open>KeyError\<close>.\<close>

definition getitem :: "kwargs \<Rightarrow> string \<Rightarrow> py_error + pyval" where
  "getitem d k = (case map_of d k of None \<Rightarrow> Inl (KeyError k) | Some v \<Rightarrow> Inr v)"

section \<open>cachet.py: the base class\<close>

definition Cachet_init :: "kwargs \<Rightarrow> world \<Rightarrow> (py_error + client) \<times> world" where
  "Cachet_init kwargs w = CachetClient_init kwargs w"

definition Cachet_delete :: "client \<Rightarrow> kwargs \<Rightarrow> world \<Rightarrow> pyval ret" where
  "Cachet_delete self kwargs w = (Inl UnimplementedException, self, w)"

definition Cachet_get :: "client \<Rightarrow> kwargs \<Rightarrow> world \<Rightarrow> pyval ret" where
  "Cachet_get self kwargs w = (Inl UnimplementedException, self, w)"

definition Cachet_post :: "client \<Rightarrow> kwargs \<Rightarrow> world \<Rightarrow> pyval ret" where
  "Cachet_post self kwargs w = (Inl UnimplementedException, self, w)"

definition Cachet_put :: "client \<Rightarrow> kwargs \<Rightarrow> world \<Rightarrow> pyval ret" where
  "Cachet_put self kwargs w = (Inl UnimplementedException, self, w)"

section \<open>cachet.py: the resources\<close>

text \<open>
  One definition for each method a class defines, and one for each method it inherits
  from \<open>Cachet\<close>. A parameter with the default \<^verbatim>\<open>None\<close> (\<^verbatim>\<open>id=None\<close>) is \<open>PNone\<close> when the
  caller leaves it out; \<open>kwargs\<close> are the other keyword arguments of the call. A decorated
  \<^verbatim>\<open>delete\<close> has only positional parameters, so it hands the decorator no keywords; a
  decorated \<^verbatim>\<open>post\<close> or \<^verbatim>\<open>put\<close> has only \<^verbatim>\<open>**kwargs\<close>.
\<close>

subsection \<open>Ping\<close>

definition Ping_init :: "kwargs \<Rightarrow> world \<Rightarrow> (py_error + client) \<times> world" where
  "Ping_init kwargs w = Cachet_init kwargs w"

definition Ping_get :: "dumps \<Rightarrow> client \<Rightarrow> kwargs \<Rightarrow> world \<Rightarrow> pyval ret" where
  "Ping_get dumps self kwargs w = CachetClient_get dumps self ''ping'' no_kwargs w"

definition Ping_post :: "client \<Rightarrow> kwargs \<Rightarrow> world \<Rightarrow> pyval ret" where
  "Ping_post self kwargs w = Cachet_post self kwargs w"

definition Ping_put :: "client \<Rightarrow> kwargs \<Rightarrow> world \<Rightarrow> pyval ret" where
  "Ping_put self kwargs w = Cachet_put self kwargs w"

definition Ping_delete :: "client \<Rightarrow> kwargs \<Rightarrow> world \<Rightarrow> pyval ret" where
  "Ping_delete self kwargs w = Cachet_delete self kwargs w"

subsection \<open>Version\<close>

definition Version_init :: "kwargs \<Rightarrow> world \<Rightarrow> (py_error + client) \<times> world" where
  "Version_init kwargs w = Cachet_init kwargs w"

definition Version_get :: "dumps \<Rightarrow> client \<Rightarrow> kwargs \<Rightarrow> world \<Rightarrow> pyval ret" where
  "Version_get dumps self kwargs w = CachetClient_get dumps self ''version'' no_kwargs w"

definition Version_post :: "client \<Rightarrow> kwargs \<Rightarrow> world \<Rightarrow> pyval ret" where
  "Version_post self kwargs w = Cachet_post self kwargs w"

definition Version_put :: "client \<Rightarrow> kwargs \<Rightarrow> world \<Rightarrow> pyval ret" where
  "Version_put self kwargs w = Cachet_put self kwargs w"

definition Version_delete :: "client \<Rightarrow> kwargs \<Rightarrow> world \<Rightarrow> pyval ret" where
  "Version_delete self kwargs w = Cachet_delete self kwargs w"

subsection \<open>Components\<close>

definition Components_init :: "kwargs \<Rightarrow> world \<Rightarrow> (py_error + client) \<times> world" where
  "Components_init kwargs w = Cachet_init kwargs w"

definition Components_delete :: "dumps \<Rightarrow> client \<Rightarrow> pyval \<Rightarrow> world \<Rightarrow> pyval ret" where
  "Components_delete dumps self id' w =
     api_token_required (\<lambda>self id' kwargs w.
       CachetClient_delete dumps self (''components/'' @ py_str id') no_kwargs w)
       self id' [] w"

definition Components_get ::
  "dumps \<Rightarrow> client \<Rightarrow> pyval \<Rightarrow> kwargs \<Rightarrow> world \<Rightarrow> pyval ret"
where
  "Components_get dumps self id' kwargs w =
     (if id' \<noteq> PNone
      then CachetClient_get dumps self (''components/'' @ py_str id') no_kwargs w
      else CachetClient_get dumps self ''components'' (data_kwargs kwargs) w)"

definition Components_post :: "dumps \<Rightarrow> client \<Rightarrow> kwargs \<Rightarrow> world \<Rightarrow> pyval ret" where
  "Components_post dumps self kwargs w =
     api_token_required (\<lambda>self args kwargs w.
       let kwargs = setdefault ''enabled'' (dict_get kwargs ''enabled'' (PBool True)) kwargs;
           required_args = [''name'', ''status'', ''enabled'']
       in case check_required_args required_args kwargs of
            Inl e \<Rightarrow> (Inl e, self, w)
          | Inr _ \<Rightarrow> CachetClient_post dumps self ''components'' (data_kwargs kwargs) w)
       self () kwargs w"

definition Components_put :: "dumps \<Rightarrow> client \<Rightarrow> kwargs \<Rightarrow> world \<Rightarrow> pyval ret" where
  "Components_put dumps self kwargs w =
     api_token_required (\<lambda>self args kwargs w.
       let required_args = [''id'']
       in case check_required_args required_args kwargs of
            Inl e \<Rightarrow> (Inl e, self, w)
          | Inr _ \<Rightarrow>
              (case getitem kwargs ''id'' of
                 Inl e \<Rightarrow> (Inl e, self, w)
               | Inr id' \<Rightarrow>
                   CachetClient_put dumps self (''components/'' @ py_str id') (data_kwargs kwargs) w))
       self () kwargs w"

subsection \<open>Groups\<close>

definition Groups_init :: "kwargs \<Rightarrow> world \<Rightarrow> (py_error + client) \<times> world" where
  "Groups_init kwargs w = Cachet_init kwargs w"

definition Groups_delete :: "dumps \<Rightarrow> client \<Rightarrow> pyval \<Rightarrow> world \<Rightarrow> pyval ret" where
  "Groups_delete dumps self id' w =
     api_token_required (\<lambda>self id' kwargs w.
       CachetClient_delete dumps self (''components/groups/'' @ py_str id') no_kwargs w)
       self id' [] w"

definition Groups_get ::
  "dumps \<Rightarrow> client \<Rightarrow> pyval \<Rightarrow> kwargs \<Rightarrow> world \<Rightarrow> pyval ret"
where
  "Groups_get dumps self id' kwargs w =
     (if id' \<noteq> PNone
      then CachetClient_get dumps self (''components/groups/'' @ py_str id') (data_kwargs kwargs) w
      else CachetClient_get dumps self ''components/groups'' (data_kwargs kwargs) w)"

definition Groups_post :: "dumps \<Rightarrow> client \<Rightarrow> kwargs \<Rightarrow> world \<Rightarrow> pyval ret" where
  "Groups_post dumps self kwargs w =
     api_token_required (\<lambda>self args kwargs w.
       let required_args = [''name'']
       in case check_required_args required_args kwargs of
            Inl e \<Rightarrow> (Inl e, self, w)
          | Inr _ \<Rightarrow> CachetClient_post dumps self ''components/groups'' (data_kwargs kwargs) w)
       self () kwargs w"

definition Groups_put :: "dumps \<Rightarrow> client \<Rightarrow> kwargs \<Rightarrow> world \<Rightarrow> pyval ret" where
  "Groups_put dumps self kwargs w =
     api_token_required (\<lambda>self args kwargs w.
       let required_args = [''id'']
       in case check_required_args required_args kwargs of
            Inl e \<Rightarrow> (Inl e, self, w)
          | Inr _ \<Rightarrow>
              (case getitem kwargs ''id'' of
                 Inl e \<Rightarrow> (Inl e, self, w)
               | Inr id' \<Rightarrow>
                   CachetClient_put dumps self (''components/groups/'' @ py_str id') (data_kwargs kwargs) w))
       self () kwargs w"

subsection \<open>Incidents\<close>

definition Incidents_init :: "kwargs \<Rightarrow> world \<Rightarrow> (py_error + client) \<times> world" where
  "Incidents_init kwargs w = Cachet_init kwargs w"

definition Incidents_delete :: "dumps \<Rightarrow> client \<Rightarrow> pyval \<Rightarrow> world \<Rightarrow> pyval ret" where
  "Incidents_delete dumps self id' w =
     api_token_required (\<lambda>self id' kwargs w.
       CachetClient_delete dumps self (''incidents/'' @ py_str id') no_kwargs w)
       self id' [] w"

definition Incidents_get ::
  "dumps \<Rightarrow> client \<Rightarrow> pyval \<Rightarrow> kwargs \<Rightarrow> world \<Rightarrow> pyval ret"
where
  "Incidents_get dumps self id' kwargs w =
     (if id' \<noteq> PNone
      then CachetClient_get dumps self (''incidents/'' @ py_str id') (data_kwargs kwargs) w
      else CachetClient_get dumps self ''incidents'' (data_kwargs kwargs) w)"

definition Incidents_post :: "dumps \<Rightarrow> client \<Rightarrow> kwargs \<Rightarrow> world \<Rightarrow> pyval ret" where
  "Incidents_post dumps self kwargs w =
     api_token_required (\<lambda>self args kwargs w.
       let kwargs = setdefault ''visible'' (dict_get kwargs ''visible'' (PBool True)) kwargs;
           kwargs = setdefault ''notify'' (dict_get kwargs ''notify'' (PBool False)) kwargs;
           required_args = [''name'', ''message'', ''status'', ''visible'', ''notify'']
       in case check_required_args required_args kwargs of
            Inl e \<Rightarrow> (Inl e, self, w)
          | Inr _ \<Rightarrow> CachetClient_post dumps self ''incidents'' (data_kwargs kwargs) w)
       self () kwargs w"

definition Incidents_put :: "dumps \<Rightarrow> client \<Rightarrow> kwargs \<Rightarrow> world \<Rightarrow> pyval ret" where
  "Incidents_put dumps self kwargs w =
     api_token_required (\<lambda>self args kwargs w.
       let required_args = [''id'']
       in case check_required_args required_args kwargs of
            Inl e \<Rightarrow> (Inl e, self, w)
          | Inr _ \<Rightarrow>
              (case getitem kwargs ''id'' of
                 Inl e \<Rightarrow> (Inl e, self, w)
               | Inr id' \<Rightarrow>
                   CachetClient_put dumps self (''incidents/'' @ py_str id') (data_kwargs kwargs) w))
       self () kwargs w"

subsection \<open>Metrics\<close>

definition Metrics_init :: "kwargs \<Rightarrow> world \<Rightarrow> (py_error + client) \<times> world" where
  "Metrics_init kwargs w = Cachet_init kwargs w"

definition Metrics_delete :: "dumps \<Rightarrow> client \<Rightarrow> pyval \<Rightarrow> world \<Rightarrow> pyval ret" where
  "Metrics_delete dumps self id' w =
     api_token_required (\<lambda>self id' kwargs w.
       CachetClient_delete dumps self (''metrics/'' @ py_str id') no_kwargs w)
       self id' [] w"

definition Metrics_get ::
  "dumps \<Rightarrow> client \<Rightarrow> pyval \<Rightarrow> kwargs \<Rightarrow> world \<Rightarrow> pyval ret"
where
  "Metrics_get dumps self id' kwargs w =
     (if id' \<noteq> PNone
      then CachetClient_get dumps self (''metrics/'' @ py_str id') (data_kwargs kwargs) w
      else CachetClient_get dumps self ''metrics'' (data_kwargs kwargs) w)"

definition Metrics_post :: "dumps \<Rightarrow> client \<Rightarrow> kwargs \<Rightarrow> world \<Rightarrow> pyval ret" where
  "Metrics_post dumps self kwargs w =
     api_token_required (\<lambda>self args kwargs w.
       let kwargs = setdefault ''default_value'' (dict_get kwargs ''default_value'' (PInt 0)) kwargs;
           required_args = [''name'', ''suffix'', ''description'', ''default_value'']
       in case check_required_args required_args kwargs of
            Inl e \<Rightarrow> (Inl e, self, w)
          | Inr _ \<Rightarrow> CachetClient_post dumps self ''metrics'' (data_kwargs kwargs) w)
       self () kwargs w"

definition Metrics_put :: "client \<Rightarrow> kwargs \<Rightarrow> world \<Rightarrow> pyval ret" where
  "Metrics_put self kwargs w = Cachet_put self kwargs w"

subsection \<open>Points\<close>

definition Points_init :: "kwargs \<Rightarrow> world \<Rightarrow> (py_error + client) \<times> world" where
  "Points_init kwargs w = Cachet_init kwargs w"

definition Points_delete ::
  "dumps \<Rightarrow> client \<Rightarrow> pyval \<times> pyval \<Rightarrow> world \<Rightarrow> pyval ret"
where
  "Points_delete dumps self args w =
     api_token_required (\<lambda>self (metric_id, point_id) kwargs w.
       CachetClient_delete dumps self
         (''metrics/'' @ py_str metric_id @ ''/points/'' @ py_str point_id) no_kwargs w)
       self args [] w"

definition Points_get ::
  "dumps \<Rightarrow> client \<Rightarrow> pyval \<Rightarrow> kwargs \<Rightarrow> world \<Rightarrow> pyval ret"
where
  "Points_get dumps self metric_id kwargs w =
     (if metric_id = PNone
      then (Inl (AttributeError ''metric_id is required to get metric points.''), self, w)
      else CachetClient_get dumps self (''metrics/'' @ py_str metric_id @ ''/points'')
             (data_kwargs kwargs) w)"

definition Points_post :: "dumps \<Rightarrow> client \<Rightarrow> kwargs \<Rightarrow> world \<Rightarrow> pyval ret" where
  "Points_post dumps self kwargs w =
     api_token_required (\<lambda>self args kwargs w.
       let required_args = [''id'', ''value'']
       in case check_required_args required_args kwargs of
            Inl e \<Rightarrow> (Inl e, self, w)
          | Inr _ \<Rightarrow>
              (case getitem kwargs ''id'' of
                 Inl e \<Rightarrow> (Inl e, self, w)
               | Inr id' \<Rightarrow>
                   CachetClient_post dumps self (''metrics/'' @ py_str id' @ ''/points'')
                     (data_kwargs kwargs) w))
       self () kwargs w"

definition Points_put :: "client \<Rightarrow> kwargs \<Rightarrow> world \<Rightarrow> pyval ret" where
  "Points_put self kwargs w = Cachet_put self kwargs w"

subsection \<open>Subscribers\<close>

definition Subscribers_init :: "kwargs \<Rightarrow> world \<Rightarrow> (py_error + client) \<times> world" where
  "Subscribers_init kwargs w = Cachet_init kwargs w"

definition Subscribers_delete :: "dumps \<Rightarrow> client \<Rightarrow> pyval \<Rightarrow> world \<Rightarrow> pyval ret" where
  "Subscribers_delete dumps self id' w =
     api_token_required (\<lambda>self id' kwargs w.
       CachetClient_delete dumps self (''subscribers/'' @ py_str id') no_kwargs w)
       self id' [] w"

definition Subscribers_get :: "dumps \<Rightarrow> client \<Rightarrow> kwargs \<Rightarrow> world \<Rightarrow> pyval ret" where
  "Subscribers_get dumps self kwargs w = CachetClient_get dumps self ''subscribers'' (data_kwargs kwargs) w"

definition Subscribers_post :: "dumps \<Rightarrow> client \<Rightarrow> kwargs \<Rightarrow> world \<Rightarrow> pyval ret" where
  "Subscribers_post dumps self kwargs w =
     api_token_required (\<lambda>self args kwargs w.
       let required_args = [''email'']
       in case check_required_args required_args kwargs of
            Inl e \<Rightarrow> (Inl e, self, w)
          | Inr _ \<Rightarrow> CachetClient_post dumps self ''subscribers'' (data_kwargs kwargs) w)
       self () kwargs w"

definition Subscribers_put :: "client \<Rightarrow> kwargs \<Rightarrow> world \<Rightarrow> pyval ret" where
  "Subscribers_put self kwargs w = Cachet_put self kwargs w"

section \<open>Notions used by the properties\<close>

text \<open>The three parts of what a call returns.\<close>

definition result_of :: "'a ret \<Rightarrow> py_error + 'a" where
  "result_of out = fst out"

definition self_of :: "'a ret \<Rightarrow> client" where
  "self_of out = fst (snd out)"

definition world_of :: "'a ret \<Rightarrow> world" where
  "world_of out = snd (snd out)"

text \<open>
  The request on the wire for a method, a path and the dictionary passed as \<^verbatim>\<open>data\<close>
  (\<open>None\<close> when the resource passes no \<^verbatim>\<open>data\<close>), written out field by field.
\<close>

definition std_headers :: "client \<Rightarrow> kwargs" where
  "std_headers c =
     [(''User-Agent'', PStr (user_agent c)),
      (''Accept'', PStr ''application/json''),
      (''Content-Type'', PStr ''application/json'')]
     @ (if api_token c = PNone then [] else [(''X-Cachet-Token'', api_token c)])"

definition wire :: "dumps \<Rightarrow> client \<Rightarrow> string \<Rightarrow> string \<Rightarrow> kwargs option \<Rightarrow> http_call" where
  "wire dumps c m path data =
     \<lparr>http_method = m,
      url = py_str (endpoint c) @ ''/'' @ path,
      call_kwargs =
        \<lparr>kw_params = None,
         kw_data = (case data of None \<Rightarrow> None
                    | Some d \<Rightarrow> Some (Val (PStr (dumps None (dict_obj d))))),
         kw_headers = Some (std_headers c),
         kw_timeout = (if timeout c = PNone then None else Some (timeout c)),
         kw_verify = (if verify c = PNone then None else Some (verify c))\<rparr>\<rparr>"

text \<open>
  Sending one request and turning the answer into the result: the exception of the
  session, \<open>HTTPError\<close> for a status that is not a success, \<open>f\<close> of the response otherwise.
\<close>

definition exchange :: "world \<Rightarrow> http_call \<Rightarrow> client \<Rightarrow> (response \<Rightarrow> 'a) \<Rightarrow> 'a ret" where
  "exchange w call c f =
     (case remote w (sent w) call of
        Inl e \<Rightarrow> (Inl e, c, w\<lparr>sent := sent w @ [call]\<rparr>)
      | Inr resp \<Rightarrow>
          if ok resp then (Inr (f resp), c, w\<lparr>sent := sent w @ [call]\<rparr>)
          else (Inl (HTTPError resp), c, w\<lparr>sent := sent w @ [call]\<rparr>))"

definition pretty :: "dumps \<Rightarrow> response \<Rightarrow> pyval" where
  "pretty dumps resp = PStr (dumps (Some 2) (decode_body resp))"

text \<open>
  The two ways a call ends: with an exception before anything is sent, the instance and
  the world untouched, or with one exchange on the wire whose answer \<open>f\<close> turns into the
  result.
\<close>

definition ends :: "world \<Rightarrow> client \<Rightarrow> (response \<Rightarrow> 'a) \<Rightarrow> 'a ret \<Rightarrow> bool" where
  "ends w c f out \<longleftrightarrow>
     (\<exists>e. out = (Inl e, c, w)) \<or> (\<exists>call. out = exchange w call c f)"

text \<open>A header of a request, \<open>None\<close> when the request does not carry it.\<close>

definition header :: "http_call \<Rightarrow> string \<Rightarrow> pyval option" where
  "header call name =
     (case kw_headers (call_kwargs call) of None \<Rightarrow> None | Some h \<Rightarrow> map_of h name)"

text \<open>
  The errors under the names the specification gives them: the program raises Python's
  built-in \<^verbatim>\<open>AttributeError\<close> and \<^verbatim>\<open>KeyError\<close> with these messages.
\<close>

definition AuthRequired :: py_error where
  "AuthRequired = AttributeError ''Parameter api_token is required.''"

definition MissingArgument :: "string \<Rightarrow> py_error" where
  "MissingArgument arg = KeyError (''Required argument: '' @ arg)"

definition ConfigurationError :: py_error where
  "ConfigurationError = KeyError ''Cachet API endpoint is required''"

text \<open>The first required key that a dictionary lacks, in the order of the list.\<close>

definition first_missing :: "string list \<Rightarrow> kwargs \<Rightarrow> string option" where
  "first_missing required_args args = find (\<lambda>arg. \<not> contains args arg) required_args"

text \<open>
  The outcome of an operation with a required-argument check, on the arguments as the
  check sees them: the error that names the first missing key and no request, or one
  request with the arguments as \<^verbatim>\<open>data\<close>.
\<close>

definition checked ::
  "dumps \<Rightarrow> client \<Rightarrow> world \<Rightarrow> string list \<Rightarrow> kwargs \<Rightarrow> string \<Rightarrow> string \<Rightarrow> pyval ret \<Rightarrow> bool"
where
  "checked dumps c w required_args args m path out \<longleftrightarrow>
     (case first_missing required_args args of
        Some arg \<Rightarrow> out = (Inl (MissingArgument arg), c, w)
      | None \<Rightarrow> sent (world_of out) = sent w @ [wire dumps c m path (Some args)])"

text \<open>
  Every operation of every resource, on the identifiers \<open>i\<close> and \<open>j\<close> and the keyword
  arguments \<open>kw\<close>, in the order Ping, Version, Components, Groups, Incidents, Metrics,
  Points, Subscribers.
\<close>

definition get_calls :: "dumps \<Rightarrow> client \<Rightarrow> pyval \<Rightarrow> kwargs \<Rightarrow> world \<Rightarrow> pyval ret list" where
  "get_calls dumps c i kw w =
     [Ping_get dumps c kw w, Version_get dumps c kw w, Components_get dumps c i kw w,
      Groups_get dumps c i kw w, Incidents_get dumps c i kw w, Metrics_get dumps c i kw w,
      Points_get dumps c i kw w, Subscribers_get dumps c kw w]"

definition post_calls :: "dumps \<Rightarrow> client \<Rightarrow> kwargs \<Rightarrow> world \<Rightarrow> pyval ret list" where
  "post_calls dumps c kw w =
     [Ping_post c kw w, Version_post c kw w, Components_post dumps c kw w,
      Groups_post dumps c kw w, Incidents_post dumps c kw w, Metrics_post dumps c kw w,
      Points_post dumps c kw w, Subscribers_post dumps c kw w]"

definition put_calls :: "dumps \<Rightarrow> client \<Rightarrow> kwargs \<Rightarrow> world \<Rightarrow> pyval ret list" where
  "put_calls dumps c kw w =
     [Ping_put c kw w, Version_put c kw w, Components_put dumps c kw w,
      Groups_put dumps c kw w, Incidents_put dumps c kw w, Metrics_put c kw w,
      Points_put c kw w, Subscribers_put c kw w]"

definition delete_calls ::
  "dumps \<Rightarrow> client \<Rightarrow> pyval \<Rightarrow> pyval \<Rightarrow> kwargs \<Rightarrow> world \<Rightarrow> pyval ret list"
where
  "delete_calls dumps c i j kw w =
     [Ping_delete c kw w, Version_delete c kw w, Components_delete dumps c i w,
      Groups_delete dumps c i w, Incidents_delete dumps c i w, Metrics_delete dumps c i w,
      Points_delete dumps c (i, j) w, Subscribers_delete dumps c i w]"

text \<open>The constructors: \<open>CachetClient\<close>, the base class and the eight resources.\<close>

definition constructors :: "(kwargs \<Rightarrow> world \<Rightarrow> (py_error + client) \<times> world) list" where
  "constructors =
     [CachetClient_init, Cachet_init, Ping_init, Version_init, Components_init, Groups_init,
      Incidents_init, Metrics_init, Points_init, Subscribers_init]"

text \<open>
  A decorated call goes past the decorator: no keyword collides with the parameter \<^verbatim>\<open>f\<close>
  of the decorator, and the instance has a token.
\<close>

definition passes :: "client \<Rightarrow> kwargs \<Rightarrow> bool" where
  "passes c kw \<longleftrightarrow> \<not> contains kw ''f'' \<and> api_token c \<noteq> PNone"

text \<open>
  The request an operation sends, \<open>None\<close> when it sends none: for a decorated \<^verbatim>\<open>post\<close> or
  \<^verbatim>\<open>put\<close> with the required keys \<open>required_args\<close>, on the arguments \<open>args\<close> as the check sees
  them, and for a decorated \<^verbatim>\<open>delete\<close>.
\<close>

definition checked_request ::
  "dumps \<Rightarrow> client \<Rightarrow> string list \<Rightarrow> kwargs \<Rightarrow> string \<Rightarrow> string \<Rightarrow> http_call option"
where
  "checked_request dumps c required_args args m path =
     (if passes c args \<and> first_missing required_args args = None
      then Some (wire dumps c m path (Some args)) else None)"

definition delete_request :: "dumps \<Rightarrow> client \<Rightarrow> string \<Rightarrow> http_call option" where
  "delete_request dumps c path =
     (if api_token c \<noteq> PNone then Some (wire dumps c ''DELETE'' path None) else None)"

text \<open>
  An outcome agrees with the request \<open>req\<close>: an exception with the instance and the world
  untouched when there is no request, the exchange of the request when there is one.
\<close>

definition sends ::
  "world \<Rightarrow> client \<Rightarrow> (response \<Rightarrow> 'a) \<Rightarrow> 'a ret \<Rightarrow> http_call option \<Rightarrow> bool"
where
  "sends w c f out req \<longleftrightarrow>
     (case req of
        None \<Rightarrow> (\<exists>e. out = (Inl e, c, w))
      | Some call \<Rightarrow> out = exchange w call c f)"

text \<open>
  An outcome and a request agree with the decorator when no keyword is named \<^verbatim>\<open>f\<close>:
  without a token the call stops with \<^verbatim>\<open>AuthRequired\<close> and sends nothing; with a token it
  reports a missing argument, or exchanges the request, which carries the token.
\<close>

definition gate_row :: "world \<Rightarrow> client \<Rightarrow> pyval ret \<Rightarrow> http_call option \<Rightarrow> bool" where
  "gate_row w c out req \<longleftrightarrow>
     (if api_token c = PNone then out = (Inl AuthRequired, c, w) \<and> req = None
      else (case req of
              None \<Rightarrow> (\<exists>arg. out = (Inl (MissingArgument arg), c, w))
            | Some call \<Rightarrow>
                (\<exists>f. out = exchange w call c f) \<and>
                header call ''X-Cachet-Token'' = Some (api_token c)))"

text \<open>
  Every operation of every resource with the request it sends, on the identifiers \<open>i\<close>
  and \<open>j\<close> and the keyword arguments \<open>kw\<close>: the outcome, whether the method carries the
  decorator \<^verbatim>\<open>api_token_required\<close>, and the request. The mutating operations without
  the decorator are those a resource inherits from the base class.
\<close>

type_synonym row = "pyval ret \<times> bool \<times> http_call option"

definition get_rows :: "dumps \<Rightarrow> client \<Rightarrow> pyval \<Rightarrow> kwargs \<Rightarrow> world \<Rightarrow> row list" where
  "get_rows dumps c i kw w =
     [(Ping_get dumps c kw w, False, Some (wire dumps c ''GET'' ''ping'' None)),
      (Version_get dumps c kw w, False, Some (wire dumps c ''GET'' ''version'' None)),
      (Components_get dumps c i kw w, False,
         Some (if i \<noteq> PNone then wire dumps c ''GET'' (''components/'' @ py_str i) None
               else wire dumps c ''GET'' ''components'' (Some kw))),
      (Groups_get dumps c i kw w, False,
         Some (if i \<noteq> PNone then wire dumps c ''GET'' (''components/groups/'' @ py_str i) (Some kw)
               else wire dumps c ''GET'' ''components/groups'' (Some kw))),
      (Incidents_get dumps c i kw w, False,
         Some (if i \<noteq> PNone then wire dumps c ''GET'' (''incidents/'' @ py_str i) (Some kw)
               else wire dumps c ''GET'' ''incidents'' (Some kw))),
      (Metrics_get dumps c i kw w, False,
         Some (if i \<noteq> PNone then wire dumps c ''GET'' (''metrics/'' @ py_str i) (Some kw)
               else wire dumps c ''GET'' ''metrics'' (Some kw))),
      (Points_get dumps c i kw w, False,
         if i \<noteq> PNone
         then Some (wire dumps c ''GET'' (''metrics/'' @ py_str i @ ''/points'') (Some kw))
         else None),
      (Subscribers_get dumps c kw w, False, Some (wire dumps c ''GET'' ''subscribers'' (Some kw)))]"

definition post_rows :: "dumps \<Rightarrow> client \<Rightarrow> kwargs \<Rightarrow> world \<Rightarrow> row list" where
  "post_rows dumps c kw w =
     [(Ping_post c kw w, False, None),
      (Version_post c kw w, False, None),
      (Components_post dumps c kw w, True,
         checked_request dumps c [''name'', ''status'', ''enabled'']
           (setdefault ''enabled'' (PBool True) kw) ''POST'' ''components''),
      (Groups_post dumps c kw w, True,
         checked_request dumps c [''name''] kw ''POST'' ''components/groups''),
      (Incidents_post dumps c kw w, True,
         checked_request dumps c [''name'', ''message'', ''status'', ''visible'', ''notify'']
           (setdefault ''notify'' (PBool False) (setdefault ''visible'' (PBool True) kw))
           ''POST'' ''incidents''),
      (Metrics_post dumps c kw w, True,
         checked_request dumps c [''name'', ''suffix'', ''description'', ''default_value'']
           (setdefault ''default_value'' (PInt 0) kw) ''POST'' ''metrics''),
      (Points_post dumps c kw w, True,
         checked_request dumps c [''id'', ''value''] kw ''POST''
           (''metrics/'' @ py_str (dict_get kw ''id'' PNone) @ ''/points'')),
      (Subscribers_post dumps c kw w, True,
         checked_request dumps c [''email''] kw ''POST'' ''subscribers'')]"

definition put_rows :: "dumps \<Rightarrow> client \<Rightarrow> kwargs \<Rightarrow> world \<Rightarrow> row list" where
  "put_rows dumps c kw w =
     [(Ping_put c kw w, False, None),
      (Version_put c kw w, False, None),
      (Components_put dumps c kw w, True,
         checked_request dumps c [''id''] kw ''PUT''
           (''components/'' @ py_str (dict_get kw ''id'' PNone))),
      (Groups_put dumps c kw w, True,
         checked_request dumps c [''id''] kw ''PUT''
           (''components/groups/'' @ py_str (dict_get kw ''id'' PNone))),
      (Incidents_put dumps c kw w, True,
         checked_request dumps c [''id''] kw ''PUT''
           (''incidents/'' @ py_str (dict_get kw ''id'' PNone))),
      (Metrics_put c kw w, False, None),
      (Points_put c kw w, False, None),
      (Subscribers_put c kw w, False, None)]"

definition delete_rows ::
  "dumps \<Rightarrow> client \<Rightarrow> pyval \<Rightarrow> pyval \<Rightarrow> kwargs \<Rightarrow> world \<Rightarrow> row list"
where
  "delete_rows dumps c i j kw w =
     [(Ping_delete c kw w, False, None),
      (Version_delete c kw w, False, None),
      (Components_delete dumps c i w, True,
         delete_request dumps c (''components/'' @ py_str i)),
      (Groups_delete dumps c i w, True,
         delete_request dumps c (''components/groups/'' @ py_str i)),
      (Incidents_delete dumps c i w, True,
         delete_request dumps c (''incidents/'' @ py_str i)),
      (Metrics_delete dumps c i w, True,
         delete_request dumps c (''metrics/'' @ py_str i)),
      (Points_delete dumps c (i, j) w, True,
         delete_request dumps c (''metrics/'' @ py_str i @ ''/points/'' @ py_str j)),
      (Subscribers_delete dumps c i w, True,
         delete_request dumps c (''subscribers/'' @ py_str i))]"

section \<open>Concrete instances\<close>

text \<open>
  \<^verbatim>\<open>json.dumps\<close> as Python 3 prints the values of \<open>pyobj\<close> with its default arguments
  (\<^verbatim>\<open>ensure_ascii\<close>; the separators \<^verbatim>\<open>', '\<close> and \<^verbatim>\<open>': '\<close>, or \<^verbatim>\<open>','\<close> and a new line when
  \<^verbatim>\<open>indent\<close> is given), a character being the code point of its number. It is used for
  evaluations on concrete inputs only.
\<close>

definition json_quote :: "string \<Rightarrow> string" where
  "json_quote s =
     CHR 0x22 # concat (map (\<lambda>c.
       if c = CHR 0x22 then [CHR 0x5C, CHR 0x22]
       else if c = CHR 0x5C then [CHR 0x5C, CHR 0x5C]
       else if c = CHR 0x0A then [CHR 0x5C, CHR ''n'']
       else if c = CHR 0x0D then [CHR 0x5C, CHR ''r'']
       else if c = CHR 0x09 then [CHR 0x5C, CHR ''t'']
       else if c = CHR 0x08 then [CHR 0x5C, CHR ''b'']
       else if c = CHR 0x0C then [CHR 0x5C, CHR ''f'']
       else if of_char c < (0x20 :: nat) \<or> (0x7E :: nat) < of_char c
       then [CHR 0x5C, CHR ''u'', CHR ''0'', CHR ''0'',
             ''0123456789abcdef'' ! (of_char c div 16),
             ''0123456789abcdef'' ! (of_char c mod 16)]
       else [c]) s) @ [CHR 0x22]"

fun json_scalar :: "pyval \<Rightarrow> string" where
  "json_scalar PNone = ''null''"
| "json_scalar (PBool b) = (if b then ''true'' else ''false'')"
| "json_scalar (PInt i) = py_str (PInt i)"
| "json_scalar (PStr s) = json_quote s"

fun newline_indent :: "nat option \<Rightarrow> nat \<Rightarrow> string" where
  "newline_indent None level = []"
| "newline_indent (Some n) level = CHR 0x0A # replicate (n * level) CHR '' ''"

fun item_separator :: "nat option \<Rightarrow> nat \<Rightarrow> string" where
  "item_separator None level = '', ''"
| "item_separator (Some n) level = '','' @ newline_indent (Some n) level"

fun join :: "string \<Rightarrow> string list \<Rightarrow> string" where
  "join sep [] = []"
| "join sep [x] = x"
| "join sep (x # y # ys) = x @ sep @ join sep (y # ys)"

fun json_encode :: "nat option \<Rightarrow> nat \<Rightarrow> pyobj \<Rightarrow> string" where
  "json_encode indent level (Val v) = json_scalar v"
| "json_encode indent level (Arr xs) =
     (if xs = [] then ''[]''
      else ''['' @ newline_indent indent (Suc level)
        @ join (item_separator indent (Suc level)) (map (json_encode indent (Suc level)) xs)
        @ newline_indent indent level @ '']'')"
| "json_encode indent level (Obj kvs) =
     (if kvs = [] then ''{}''
      else ''{'' @ newline_indent indent (Suc level)
        @ join (item_separator indent (Suc level))
            (map (\<lambda>(k, v). json_quote k @ '': '' @ json_encode indent (Suc level) v) kvs)
        @ newline_indent indent level @ ''}'')"

definition json_dumps :: dumps where
  "json_dumps indent obj = json_encode indent 0 obj"

text \<open>
  A client with a token, the same client without one, and a remote service that answers every request with the same
  status and JSON value (\<open>None\<close> for an empty body, which \<^verbatim>\<open>resp.json()\<close> rejects).
\<close>

definition example_client :: client where
  "example_client =
     \<lparr>user_agent = ''python-cachetclient'', endpoint = PStr ''http://host/api/v1'',
      api_token = PStr ''t'', timeout = PNone, verify = PNone\<rparr>"

definition anonymous_client :: client where
  "anonymous_client = example_client\<lparr>api_token := PNone\<rparr>"

definition stub_response :: "nat \<Rightarrow> pyobj option \<Rightarrow> response" where
  "stub_response status body =
     \<lparr>status_code = status,
      content = (case body of None \<Rightarrow> [] | Some b \<Rightarrow> json_dumps None b),
      json_value = body\<rparr>"

definition stub_world :: "nat \<Rightarrow> pyobj option \<Rightarrow> world" where
  "stub_world status body =
     \<lparr>remote = (\<lambda>history call. Inr (stub_response status body)), sent = []\<rparr>"

definition echo :: pyobj where
  "echo = Obj [(''data'', Obj [(''id'', Val (PInt 42)), (''name'', Val (PStr ''X''))])]"

section \<open>The transport in closed form\<close>

lemma request_kwargs_none:
  "request_kwargs dumps c no_kwargs = call_kwargs (wire dumps c m path None)"
  by (simp add: request_kwargs_def no_kwargs_def wire_def std_headers_def Let_def)

lemma request_kwargs_data:
  "request_kwargs dumps c (data_kwargs d) = call_kwargs (wire dumps c m path (Some d))"
  by (simp add: request_kwargs_def data_kwargs_def no_kwargs_def wire_def std_headers_def Let_def)

lemma request_none:
  "CachetClient_request dumps c (py_str (endpoint c) @ ''/'' @ path) m no_kwargs w =
     exchange w (wire dumps c m path None) c (\<lambda>resp. (resp, decode_body resp))"
proof -
  have call: "\<lparr>http_method = m, url = py_str (endpoint c) @ ''/'' @ path,
        call_kwargs = request_kwargs dumps c no_kwargs\<rparr> = wire dumps c m path None"
    by (simp add: request_kwargs_none [of dumps c m path]) (simp add: wire_def)
  show ?thesis
    unfolding CachetClient_request_def exchange_def Let_def call
    by (simp add: ok_def raise_for_status_def split: sum.splits)
qed

lemma request_data:
  "CachetClient_request dumps c (py_str (endpoint c) @ ''/'' @ path) m (data_kwargs d) w =
     exchange w (wire dumps c m path (Some d)) c (\<lambda>resp. (resp, decode_body resp))"
proof -
  have call: "\<lparr>http_method = m, url = py_str (endpoint c) @ ''/'' @ path,
        call_kwargs = request_kwargs dumps c (data_kwargs d)\<rparr> = wire dumps c m path (Some d)"
    by (simp add: request_kwargs_data [of dumps c d m path]) (simp add: wire_def)
  show ?thesis
    unfolding CachetClient_request_def exchange_def Let_def call
    by (simp add: ok_def raise_for_status_def split: sum.splits)
qed

lemma get_none:
  "CachetClient_get dumps c path no_kwargs w =
     exchange w (wire dumps c ''GET'' path None) c (pretty dumps)"
  unfolding CachetClient_get_def Let_def request_none
  by (simp add: exchange_def pretty_def split: sum.splits)

lemma get_data:
  "CachetClient_get dumps c path (data_kwargs d) w =
     exchange w (wire dumps c ''GET'' path (Some d)) c (pretty dumps)"
  unfolding CachetClient_get_def Let_def request_data
  by (simp add: exchange_def pretty_def split: sum.splits)

lemma post_data:
  "CachetClient_post dumps c path (data_kwargs d) w =
     exchange w (wire dumps c ''POST'' path (Some d)) c (pretty dumps)"
  unfolding CachetClient_post_def Let_def request_data
  by (simp add: exchange_def pretty_def split: sum.splits)

lemma put_data:
  "CachetClient_put dumps c path (data_kwargs d) w =
     exchange w (wire dumps c ''PUT'' path (Some d)) c (pretty dumps)"
  unfolding CachetClient_put_def Let_def request_data
  by (simp add: exchange_def pretty_def split: sum.splits)

lemma delete_none:
  "CachetClient_delete dumps c path no_kwargs w =
     exchange w (wire dumps c ''DELETE'' path None) c (\<lambda>resp. PBool True)"
  unfolding CachetClient_delete_def Let_def request_none
  by (simp add: exchange_def split: sum.splits)

lemma check_required_args_eq:
  "check_required_args required_args args =
     (case first_missing required_args args of
        None \<Rightarrow> Inr True
      | Some arg \<Rightarrow> Inl (MissingArgument arg))"
  by (induction required_args) (simp_all add: first_missing_def MissingArgument_def)

lemma exchange_self [simp]: "self_of (exchange w call c f) = c"
  by (simp add: exchange_def self_of_def split: sum.splits)

lemma exchange_sent [simp]: "sent (world_of (exchange w call c f)) = sent w @ [call]"
  by (simp add: exchange_def world_of_def split: sum.splits)

lemma exchange_remote [simp]: "remote (world_of (exchange w call c f)) = remote w"
  by (simp add: exchange_def world_of_def split: sum.splits)

lemma exchange_result:
  "remote w (sent w) call = Inr resp \<Longrightarrow>
   result_of (exchange w call c f) = (if ok resp then Inr (f resp) else Inl (HTTPError resp))"
  by (simp add: exchange_def result_of_def)

lemma exchange_neq [simp]: "exchange w call c f \<noteq> (r, c', w)"
proof
  assume "exchange w call c f = (r, c', w)"
  then have "sent (world_of (exchange w call c f)) = sent w"
    by (simp add: world_of_def)
  then show False by simp
qed

section \<open>The resource methods in closed form\<close>

lemma contains_map_of: "contains d k \<longleftrightarrow> map_of d k \<noteq> None"
  by (simp add: contains_def map_of_eq_None_iff)

lemma contains_Nil [simp]: "\<not> contains [] k"
  by (simp add: contains_def)

lemma contains_Cons [simp]: "contains ((k', v) # d) k \<longleftrightarrow> k = k' \<or> contains d k"
  by (auto simp: contains_def)

lemma contains_append [simp]: "contains (d @ d') k \<longleftrightarrow> contains d k \<or> contains d' k"
  by (auto simp: contains_def)

lemma contains_setdefault [simp]:
  "contains (setdefault k v d) k' \<longleftrightarrow> contains d k' \<or> k' = k"
  by (auto simp: setdefault_def contains_def)


lemma setdefault_get: "setdefault k (dict_get d k v) d = setdefault k v d"
  by (simp add: setdefault_def dict_get_def contains_map_of)



lemma getitem_present:
  "first_missing (k # ks) d = None \<Longrightarrow> getitem d k = Inr (dict_get d k PNone)"
  by (auto simp: first_missing_def getitem_def dict_get_def contains_map_of split: if_splits)

lemma gate_split:
  "api_token_required f c a kw w =
     (if contains kw ''f'' then (Inl TypeError, c, w)
      else if api_token c = PNone then (Inl AuthRequired, c, w)
      else f c a kw w)"
  by (simp add: api_token_required_def AuthRequired_def)

lemma Ping_get_eq:
  "Ping_get dumps c kw w = exchange w (wire dumps c ''GET'' ''ping'' None) c (pretty dumps)"
  by (simp add: Ping_get_def get_none)

lemma Ping_post_eq: "Ping_post c kw w = (Inl UnimplementedException, c, w)"
  by (simp add: Ping_post_def Cachet_post_def)

lemma Ping_put_eq: "Ping_put c kw w = (Inl UnimplementedException, c, w)"
  by (simp add: Ping_put_def Cachet_put_def)

lemma Ping_delete_eq: "Ping_delete c kw w = (Inl UnimplementedException, c, w)"
  by (simp add: Ping_delete_def Cachet_delete_def)

lemma Version_get_eq:
  "Version_get dumps c kw w = exchange w (wire dumps c ''GET'' ''version'' None) c (pretty dumps)"
  by (simp add: Version_get_def get_none)

lemma Version_post_eq: "Version_post c kw w = (Inl UnimplementedException, c, w)"
  by (simp add: Version_post_def Cachet_post_def)

lemma Version_put_eq: "Version_put c kw w = (Inl UnimplementedException, c, w)"
  by (simp add: Version_put_def Cachet_put_def)

lemma Version_delete_eq: "Version_delete c kw w = (Inl UnimplementedException, c, w)"
  by (simp add: Version_delete_def Cachet_delete_def)

lemma Components_delete_eq:
  "Components_delete dumps c i w =
     (if api_token c = PNone then (Inl AuthRequired, c, w)
      else exchange w (wire dumps c ''DELETE'' (''components/'' @ py_str i) None) c
             (\<lambda>resp. PBool True))"
  by (simp add: Components_delete_def gate_split delete_none)

lemma Components_get_eq:
  "Components_get dumps c i kw w =
     (if i \<noteq> PNone
      then exchange w (wire dumps c ''GET'' (''components/'' @ py_str i) None) c (pretty dumps)
      else exchange w (wire dumps c ''GET'' ''components'' (Some kw)) c (pretty dumps))"
  by (simp add: Components_get_def get_none get_data)

lemma Components_post_eq:
  "Components_post dumps c kw w =
     (if contains kw ''f'' then (Inl TypeError, c, w)
      else if api_token c = PNone then (Inl AuthRequired, c, w)
      else case first_missing [''name'', ''status'', ''enabled''] (setdefault ''enabled'' (PBool True) kw) of
             Some arg \<Rightarrow> (Inl (MissingArgument arg), c, w)
           | None \<Rightarrow>
               exchange w (wire dumps c ''POST'' ''components'' (Some (setdefault ''enabled'' (PBool True) kw))) c (pretty dumps))"
  by (simp add: Components_post_def gate_split Let_def setdefault_get check_required_args_eq
      post_data split: option.splits)

lemma Components_put_eq:
  "Components_put dumps c kw w =
     (if contains kw ''f'' then (Inl TypeError, c, w)
      else if api_token c = PNone then (Inl AuthRequired, c, w)
      else case first_missing [''id''] kw of
             Some arg \<Rightarrow> (Inl (MissingArgument arg), c, w)
           | None \<Rightarrow>
               exchange w
                 (wire dumps c ''PUT'' (''components/'' @ py_str (dict_get kw ''id'' PNone)) (Some kw))
                 c (pretty dumps))"
  by (simp add: Components_put_def gate_split Let_def check_required_args_eq getitem_present
      put_data split: option.splits)

lemma Groups_delete_eq:
  "Groups_delete dumps c i w =
     (if api_token c = PNone then (Inl AuthRequired, c, w)
      else exchange w (wire dumps c ''DELETE'' (''components/groups/'' @ py_str i) None) c
             (\<lambda>resp. PBool True))"
  by (simp add: Groups_delete_def gate_split delete_none)

lemma Groups_get_eq:
  "Groups_get dumps c i kw w =
     (if i \<noteq> PNone
      then exchange w (wire dumps c ''GET'' (''components/groups/'' @ py_str i) (Some kw)) c (pretty dumps)
      else exchange w (wire dumps c ''GET'' ''components/groups'' (Some kw)) c (pretty dumps))"
  by (simp add: Groups_get_def get_none get_data)

lemma Groups_post_eq:
  "Groups_post dumps c kw w =
     (if contains kw ''f'' then (Inl TypeError, c, w)
      else if api_token c = PNone then (Inl AuthRequired, c, w)
      else case first_missing [''name''] kw of
             Some arg \<Rightarrow> (Inl (MissingArgument arg), c, w)
           | None \<Rightarrow>
               exchange w (wire dumps c ''POST'' ''components/groups'' (Some kw)) c (pretty dumps))"
  by (simp add: Groups_post_def gate_split Let_def setdefault_get check_required_args_eq
      post_data split: option.splits)

lemma Groups_put_eq:
  "Groups_put dumps c kw w =
     (if contains kw ''f'' then (Inl TypeError, c, w)
      else if api_token c = PNone then (Inl AuthRequired, c, w)
      else case first_missing [''id''] kw of
             Some arg \<Rightarrow> (Inl (MissingArgument arg), c, w)
           | None \<Rightarrow>
               exchange w
                 (wire dumps c ''PUT'' (''components/groups/'' @ py_str (dict_get kw ''id'' PNone)) (Some kw))
                 c (pretty dumps))"
  by (simp add: Groups_put_def gate_split Let_def check_required_args_eq getitem_present
      put_data split: option.splits)

lemma Incidents_delete_eq:
  "Incidents_delete dumps c i w =
     (if api_token c = PNone then (Inl AuthRequired, c, w)
      else exchange w (wire dumps c ''DELETE'' (''incidents/'' @ py_str i) None) c
             (\<lambda>resp. PBool True))"
  by (simp add: Incidents_delete_def gate_split delete_none)

lemma Incidents_get_eq:
  "Incidents_get dumps c i kw w =
     (if i \<noteq> PNone
      then exchange w (wire dumps c ''GET'' (''incidents/'' @ py_str i) (Some kw)) c (pretty dumps)
      else exchange w (wire dumps c ''GET'' ''incidents'' (Some kw)) c (pretty dumps))"
  by (simp add: Incidents_get_def get_none get_data)

lemma Incidents_post_eq:
  "Incidents_post dumps c kw w =
     (if contains kw ''f'' then (Inl TypeError, c, w)
      else if api_token c = PNone then (Inl AuthRequired, c, w)
      else case first_missing [''name'', ''message'', ''status'', ''visible'', ''notify''] (setdefault ''notify'' (PBool False) (setdefault ''visible'' (PBool True) kw)) of
             Some arg \<Rightarrow> (Inl (MissingArgument arg), c, w)
           | None \<Rightarrow>
               exchange w (wire dumps c ''POST'' ''incidents'' (Some (setdefault ''notify'' (PBool False) (setdefault ''visible'' (PBool True) kw)))) c (pretty dumps))"
  by (simp add: Incidents_post_def gate_split Let_def setdefault_get check_required_args_eq
      post_data split: option.splits)

lemma Incidents_put_eq:
  "Incidents_put dumps c kw w =
     (if contains kw ''f'' then (Inl TypeError, c, w)
      else if api_token c = PNone then (Inl AuthRequired, c, w)
      else case first_missing [''id''] kw of
             Some arg \<Rightarrow> (Inl (MissingArgument arg), c, w)
           | None \<Rightarrow>
               exchange w
                 (wire dumps c ''PUT'' (''incidents/'' @ py_str (dict_get kw ''id'' PNone)) (Some kw))
                 c (pretty dumps))"
  by (simp add: Incidents_put_def gate_split Let_def check_required_args_eq getitem_present
      put_data split: option.splits)

lemma Metrics_delete_eq:
  "Metrics_delete dumps c i w =
     (if api_token c = PNone then (Inl AuthRequired, c, w)
      else exchange w (wire dumps c ''DELETE'' (''metrics/'' @ py_str i) None) c
             (\<lambda>resp. PBool True))"
  by (simp add: Metrics_delete_def gate_split delete_none)

lemma Metrics_get_eq:
  "Metrics_get dumps c i kw w =
     (if i \<noteq> PNone
      then exchange w (wire dumps c ''GET'' (''metrics/'' @ py_str i) (Some kw)) c (pretty dumps)
      else exchange w (wire dumps c ''GET'' ''metrics'' (Some kw)) c (pretty dumps))"
  by (simp add: Metrics_get_def get_none get_data)

lemma Metrics_post_eq:
  "Metrics_post dumps c kw w =
     (if contains kw ''f'' then (Inl TypeError, c, w)
      else if api_token c = PNone then (Inl AuthRequired, c, w)
      else case first_missing [''name'', ''suffix'', ''description'', ''default_value''] (setdefault ''default_value'' (PInt 0) kw) of
             Some arg \<Rightarrow> (Inl (MissingArgument arg), c, w)
           | None \<Rightarrow>
               exchange w (wire dumps c ''POST'' ''metrics'' (Some (setdefault ''default_value'' (PInt 0) kw))) c (pretty dumps))"
  by (simp add: Metrics_post_def gate_split Let_def setdefault_get check_required_args_eq
      post_data split: option.splits)

lemma Metrics_put_eq: "Metrics_put c kw w = (Inl UnimplementedException, c, w)"
  by (simp add: Metrics_put_def Cachet_put_def)

lemma Points_delete_eq:
  "Points_delete dumps c (i, j) w =
     (if api_token c = PNone then (Inl AuthRequired, c, w)
      else exchange w
             (wire dumps c ''DELETE'' (''metrics/'' @ py_str i @ ''/points/'' @ py_str j) None) c
             (\<lambda>resp. PBool True))"
  by (simp add: Points_delete_def gate_split delete_none)

lemma Points_get_eq:
  "Points_get dumps c i kw w =
     (if i = PNone
      then (Inl (AttributeError ''metric_id is required to get metric points.''), c, w)
      else exchange w (wire dumps c ''GET'' (''metrics/'' @ py_str i @ ''/points'') (Some kw)) c
             (pretty dumps))"
  by (simp add: Points_get_def get_data)

lemma Points_post_eq:
  "Points_post dumps c kw w =
     (if contains kw ''f'' then (Inl TypeError, c, w)
      else if api_token c = PNone then (Inl AuthRequired, c, w)
      else case first_missing [''id'', ''value''] kw of
             Some arg \<Rightarrow> (Inl (MissingArgument arg), c, w)
           | None \<Rightarrow>
               exchange w
                 (wire dumps c ''POST''
                    (''metrics/'' @ py_str (dict_get kw ''id'' PNone) @ ''/points'') (Some kw))
                 c (pretty dumps))"
  by (simp add: Points_post_def gate_split Let_def check_required_args_eq getitem_present
      post_data split: option.splits)

lemma Points_put_eq: "Points_put c kw w = (Inl UnimplementedException, c, w)"
  by (simp add: Points_put_def Cachet_put_def)

lemma Subscribers_delete_eq:
  "Subscribers_delete dumps c i w =
     (if api_token c = PNone then (Inl AuthRequired, c, w)
      else exchange w (wire dumps c ''DELETE'' (''subscribers/'' @ py_str i) None) c
             (\<lambda>resp. PBool True))"
  by (simp add: Subscribers_delete_def gate_split delete_none)

lemma Subscribers_get_eq:
  "Subscribers_get dumps c kw w = exchange w (wire dumps c ''GET'' ''subscribers'' (Some kw)) c (pretty dumps)"
  by (simp add: Subscribers_get_def get_data)

lemma Subscribers_post_eq:
  "Subscribers_post dumps c kw w =
     (if contains kw ''f'' then (Inl TypeError, c, w)
      else if api_token c = PNone then (Inl AuthRequired, c, w)
      else case first_missing [''email''] kw of
             Some arg \<Rightarrow> (Inl (MissingArgument arg), c, w)
           | None \<Rightarrow>
               exchange w (wire dumps c ''POST'' ''subscribers'' (Some kw)) c (pretty dumps))"
  by (simp add: Subscribers_post_def gate_split Let_def setdefault_get check_required_args_eq
      post_data split: option.splits)

lemma Subscribers_put_eq: "Subscribers_put c kw w = (Inl UnimplementedException, c, w)"
  by (simp add: Subscribers_put_def Cachet_put_def)

section \<open>Facts shared by the properties\<close>

lemma unchanged_self [simp]: "self_of (r, c, w) = c"
  by (simp add: self_of_def)

lemma unchanged_world [simp]: "world_of (r, c, w) = w"
  by (simp add: world_of_def)

lemma unchanged_result [simp]: "result_of (r, c, w) = r"
  by (simp add: result_of_def)

lemma ok_status: "ok resp \<longleftrightarrow> \<not> (400 \<le> status_code resp \<and> status_code resp < 600)"
  by (simp add: ok_def raise_for_status_def)

lemma exchange_neq_sym [simp]: "(r, c', w) \<noteq> exchange w call c f"
  using exchange_neq [of w call c f r c'] by (simp add: eq_commute)

lemma exchange_answer:
  "remote w (sent w) call = Inr resp \<Longrightarrow>
   exchange w call c f =
     ((if ok resp then Inr (f resp) else Inl (HTTPError resp)), c, w\<lparr>sent := sent w @ [call]\<rparr>)"
  by (simp add: exchange_def)

lemma header_wire:
  "header (wire dumps c m path data) ''X-Cachet-Token'' =
     (if api_token c = PNone then None else Some (api_token c))"
  by (simp add: header_def wire_def std_headers_def)

lemma wire_data [simp]:
  "kw_data (call_kwargs (wire dumps c m path (Some d))) = Some (Val (PStr (dumps None (dict_obj d))))"
  by (simp add: wire_def)

lemma wire_params [simp]: "kw_params (call_kwargs (wire dumps c m path data)) = None"
  by (simp add: wire_def)

lemma wire_url [simp]: "url (wire dumps c m path data) = py_str (endpoint c) @ ''/'' @ path"
  by (simp add: wire_def)

lemma wire_method [simp]: "http_method (wire dumps c m path data) = m"
  by (simp add: wire_def)

lemma MissingArgument_inject [simp]: "MissingArgument a = MissingArgument b \<longleftrightarrow> a = b"
  by (simp add: MissingArgument_def)

lemma MissingArgument_not_Auth [simp]: "AuthRequired \<noteq> MissingArgument a"
  by (simp add: MissingArgument_def AuthRequired_def)

lemma TypeError_not_Auth [simp]: "TypeError \<noteq> AuthRequired"
  by (simp add: AuthRequired_def)

lemma TypeError_not_Missing [simp]: "TypeError \<noteq> MissingArgument a"
  by (simp add: MissingArgument_def)

lemma Unimplemented_not_Auth [simp]: "UnimplementedException \<noteq> AuthRequired"
  by (simp add: AuthRequired_def)

lemma ends_raise [simp]: "ends w c f (Inl e, c, w)"
  by (simp add: ends_def)

lemma ends_exchange [simp]: "ends w c f (exchange w call c f)"
  by (auto simp: ends_def)

lemma ends_self: "ends w c f out \<Longrightarrow> self_of out = c"
  by (auto simp: ends_def)

lemma sends_None [simp]: "sends w c f (Inl e, c, w) None"
  by (simp add: sends_def)

lemma sends_Some [simp]: "sends w c f (exchange w call c f) (Some call)"
  by (simp add: sends_def)

lemma Ping_get_ends: "ends w c (pretty dumps) (Ping_get dumps c kw w)"
  by (simp add: Ping_get_eq split: option.splits)

lemma Ping_post_ends: "ends w c (pretty dumps) (Ping_post c kw w)"
  by (simp add: Ping_post_eq split: option.splits)

lemma Ping_put_ends: "ends w c (pretty dumps) (Ping_put c kw w)"
  by (simp add: Ping_put_eq split: option.splits)

lemma Ping_delete_ends: "ends w c (\<lambda>resp. PBool True) (Ping_delete c kw w)"
  by (simp add: Ping_delete_eq split: option.splits)

lemma Version_get_ends: "ends w c (pretty dumps) (Version_get dumps c kw w)"
  by (simp add: Version_get_eq split: option.splits)

lemma Version_post_ends: "ends w c (pretty dumps) (Version_post c kw w)"
  by (simp add: Version_post_eq split: option.splits)

lemma Version_put_ends: "ends w c (pretty dumps) (Version_put c kw w)"
  by (simp add: Version_put_eq split: option.splits)

lemma Version_delete_ends: "ends w c (\<lambda>resp. PBool True) (Version_delete c kw w)"
  by (simp add: Version_delete_eq split: option.splits)

lemma Components_get_ends: "ends w c (pretty dumps) (Components_get dumps c i kw w)"
  by (simp add: Components_get_eq split: option.splits)

lemma Components_post_ends: "ends w c (pretty dumps) (Components_post dumps c kw w)"
  by (simp add: Components_post_eq split: option.splits)

lemma Components_put_ends: "ends w c (pretty dumps) (Components_put dumps c kw w)"
  by (simp add: Components_put_eq split: option.splits)

lemma Components_delete_ends: "ends w c (\<lambda>resp. PBool True) (Components_delete dumps c i w)"
  by (simp add: Components_delete_eq split: option.splits)

lemma Groups_get_ends: "ends w c (pretty dumps) (Groups_get dumps c i kw w)"
  by (simp add: Groups_get_eq split: option.splits)

lemma Groups_post_ends: "ends w c (pretty dumps) (Groups_post dumps c kw w)"
  by (simp add: Groups_post_eq split: option.splits)

lemma Groups_put_ends: "ends w c (pretty dumps) (Groups_put dumps c kw w)"
  by (simp add: Groups_put_eq split: option.splits)

lemma Groups_delete_ends: "ends w c (\<lambda>resp. PBool True) (Groups_delete dumps c i w)"
  by (simp add: Groups_delete_eq split: option.splits)

lemma Incidents_get_ends: "ends w c (pretty dumps) (Incidents_get dumps c i kw w)"
  by (simp add: Incidents_get_eq split: option.splits)

lemma Incidents_post_ends: "ends w c (pretty dumps) (Incidents_post dumps c kw w)"
  by (simp add: Incidents_post_eq split: option.splits)

lemma Incidents_put_ends: "ends w c (pretty dumps) (Incidents_put dumps c kw w)"
  by (simp add: Incidents_put_eq split: option.splits)

lemma Incidents_delete_ends: "ends w c (\<lambda>resp. PBool True) (Incidents_delete dumps c i w)"
  by (simp add: Incidents_delete_eq split: option.splits)

lemma Metrics_get_ends: "ends w c (pretty dumps) (Metrics_get dumps c i kw w)"
  by (simp add: Metrics_get_eq split: option.splits)

lemma Metrics_post_ends: "ends w c (pretty dumps) (Metrics_post dumps c kw w)"
  by (simp add: Metrics_post_eq split: option.splits)

lemma Metrics_put_ends: "ends w c (pretty dumps) (Metrics_put c kw w)"
  by (simp add: Metrics_put_eq split: option.splits)

lemma Metrics_delete_ends: "ends w c (\<lambda>resp. PBool True) (Metrics_delete dumps c i w)"
  by (simp add: Metrics_delete_eq split: option.splits)

lemma Points_get_ends: "ends w c (pretty dumps) (Points_get dumps c i kw w)"
  by (simp add: Points_get_eq split: option.splits)

lemma Points_post_ends: "ends w c (pretty dumps) (Points_post dumps c kw w)"
  by (simp add: Points_post_eq split: option.splits)

lemma Points_put_ends: "ends w c (pretty dumps) (Points_put c kw w)"
  by (simp add: Points_put_eq split: option.splits)

lemma Points_delete_ends: "ends w c (\<lambda>resp. PBool True) (Points_delete dumps c (i, j) w)"
  by (simp add: Points_delete_eq split: option.splits)

lemma Subscribers_get_ends: "ends w c (pretty dumps) (Subscribers_get dumps c kw w)"
  by (simp add: Subscribers_get_eq split: option.splits)

lemma Subscribers_post_ends: "ends w c (pretty dumps) (Subscribers_post dumps c kw w)"
  by (simp add: Subscribers_post_eq split: option.splits)

lemma Subscribers_put_ends: "ends w c (pretty dumps) (Subscribers_put c kw w)"
  by (simp add: Subscribers_put_eq split: option.splits)

lemma Subscribers_delete_ends: "ends w c (\<lambda>resp. PBool True) (Subscribers_delete dumps c i w)"
  by (simp add: Subscribers_delete_eq split: option.splits)

lemma get_calls_ends:
  "out \<in> set (get_calls dumps c i kw w) \<Longrightarrow> ends w c (pretty dumps) out"
  by (auto simp: get_calls_def Ping_get_ends Version_get_ends Components_get_ends
      Groups_get_ends Incidents_get_ends Metrics_get_ends Points_get_ends Subscribers_get_ends)

lemma post_calls_ends:
  "out \<in> set (post_calls dumps c kw w) \<Longrightarrow> ends w c (pretty dumps) out"
  by (auto simp: post_calls_def Ping_post_ends Version_post_ends Components_post_ends
      Groups_post_ends Incidents_post_ends Metrics_post_ends Points_post_ends Subscribers_post_ends)

lemma put_calls_ends:
  "out \<in> set (put_calls dumps c kw w) \<Longrightarrow> ends w c (pretty dumps) out"
  by (auto simp: put_calls_def Ping_put_ends Version_put_ends Components_put_ends
      Groups_put_ends Incidents_put_ends Metrics_put_ends Points_put_ends Subscribers_put_ends)

lemma delete_calls_ends:
  "out \<in> set (delete_calls dumps c i j kw w) \<Longrightarrow> ends w c (\<lambda>resp. PBool True) out"
  by (auto simp: delete_calls_def Ping_delete_ends Version_delete_ends Components_delete_ends
      Groups_delete_ends Incidents_delete_ends Metrics_delete_ends Points_delete_ends
      Subscribers_delete_ends)

lemma checked_request_contains [simp]:
  "contains kw ''f'' \<Longrightarrow> checked_request dumps c required_args kw m path = None"
  by (simp add: checked_request_def passes_def)

lemma get_rows_sends:
  "(out, d, req) \<in> set (get_rows dumps c i kw w) \<Longrightarrow> sends w c (pretty dumps) out req"
  by (auto simp: get_rows_def Ping_get_eq Version_get_eq Components_get_eq Groups_get_eq
      Incidents_get_eq Metrics_get_eq Points_get_eq Subscribers_get_eq)

lemma Components_post_sends:
  "sends w c (pretty dumps) (Components_post dumps c kw w)
     (checked_request dumps c [''name'', ''status'', ''enabled'']
        (setdefault ''enabled'' (PBool True) kw) ''POST'' ''components'')"
  by (simp add: Components_post_eq checked_request_def passes_def split: option.splits)

lemma Groups_post_sends:
  "sends w c (pretty dumps) (Groups_post dumps c kw w)
     (checked_request dumps c [''name''] kw ''POST'' ''components/groups'')"
  by (simp add: Groups_post_eq checked_request_def passes_def split: option.splits)

lemma Incidents_post_sends:
  "sends w c (pretty dumps) (Incidents_post dumps c kw w)
     (checked_request dumps c [''name'', ''message'', ''status'', ''visible'', ''notify'']
        (setdefault ''notify'' (PBool False) (setdefault ''visible'' (PBool True) kw))
        ''POST'' ''incidents'')"
  by (simp add: Incidents_post_eq checked_request_def passes_def split: option.splits)

lemma Metrics_post_sends:
  "sends w c (pretty dumps) (Metrics_post dumps c kw w)
     (checked_request dumps c [''name'', ''suffix'', ''description'', ''default_value'']
        (setdefault ''default_value'' (PInt 0) kw) ''POST'' ''metrics'')"
  by (simp add: Metrics_post_eq checked_request_def passes_def split: option.splits)

lemma Points_post_sends:
  "sends w c (pretty dumps) (Points_post dumps c kw w)
     (checked_request dumps c [''id'', ''value''] kw ''POST''
        (''metrics/'' @ py_str (dict_get kw ''id'' PNone) @ ''/points''))"
  by (simp add: Points_post_eq checked_request_def passes_def split: option.splits)

lemma Subscribers_post_sends:
  "sends w c (pretty dumps) (Subscribers_post dumps c kw w)
     (checked_request dumps c [''email''] kw ''POST'' ''subscribers'')"
  by (simp add: Subscribers_post_eq checked_request_def passes_def split: option.splits)

lemma Components_put_sends:
  "sends w c (pretty dumps) (Components_put dumps c kw w)
     (checked_request dumps c [''id''] kw ''PUT''
        (''components/'' @ py_str (dict_get kw ''id'' PNone)))"
  by (simp add: Components_put_eq checked_request_def passes_def split: option.splits)

lemma Groups_put_sends:
  "sends w c (pretty dumps) (Groups_put dumps c kw w)
     (checked_request dumps c [''id''] kw ''PUT''
        (''components/groups/'' @ py_str (dict_get kw ''id'' PNone)))"
  by (simp add: Groups_put_eq checked_request_def passes_def split: option.splits)

lemma Incidents_put_sends:
  "sends w c (pretty dumps) (Incidents_put dumps c kw w)
     (checked_request dumps c [''id''] kw ''PUT''
        (''incidents/'' @ py_str (dict_get kw ''id'' PNone)))"
  by (simp add: Incidents_put_eq checked_request_def passes_def split: option.splits)

lemma post_rows_sends:
  "(out, d, req) \<in> set (post_rows dumps c kw w) \<Longrightarrow> sends w c (pretty dumps) out req"
  by (auto simp: post_rows_def Ping_post_eq Version_post_eq Components_post_sends
      Groups_post_sends Incidents_post_sends Metrics_post_sends Points_post_sends [simplified]
      Subscribers_post_sends)

lemma put_rows_sends:
  "(out, d, req) \<in> set (put_rows dumps c kw w) \<Longrightarrow> sends w c (pretty dumps) out req"
  by (auto simp: put_rows_def Ping_put_eq Version_put_eq Components_put_sends [simplified]
      Groups_put_sends [simplified] Incidents_put_sends [simplified] Metrics_put_eq Points_put_eq
      Subscribers_put_eq)


lemma Components_post_gate:
  "\<not> contains kw ''f'' \<Longrightarrow>
   gate_row w c (Components_post dumps c kw w)
     (checked_request dumps c [''name'', ''status'', ''enabled'']
        (setdefault ''enabled'' (PBool True) kw) ''POST'' ''components'')"
  by (auto simp: Components_post_eq gate_row_def checked_request_def delete_request_def passes_def
      header_wire split: option.splits)

lemma Groups_post_gate:
  "\<not> contains kw ''f'' \<Longrightarrow>
   gate_row w c (Groups_post dumps c kw w)
     (checked_request dumps c [''name''] kw ''POST'' ''components/groups'')"
  by (auto simp: Groups_post_eq gate_row_def checked_request_def delete_request_def passes_def
      header_wire split: option.splits)

lemma Incidents_post_gate:
  "\<not> contains kw ''f'' \<Longrightarrow>
   gate_row w c (Incidents_post dumps c kw w)
     (checked_request dumps c [''name'', ''message'', ''status'', ''visible'', ''notify'']
        (setdefault ''notify'' (PBool False) (setdefault ''visible'' (PBool True) kw))
        ''POST'' ''incidents'')"
  by (auto simp: Incidents_post_eq gate_row_def checked_request_def delete_request_def passes_def
      header_wire split: option.splits)

lemma Metrics_post_gate:
  "\<not> contains kw ''f'' \<Longrightarrow>
   gate_row w c (Metrics_post dumps c kw w)
     (checked_request dumps c [''name'', ''suffix'', ''description'', ''default_value'']
        (setdefault ''default_value'' (PInt 0) kw) ''POST'' ''metrics'')"
  by (auto simp: Metrics_post_eq gate_row_def checked_request_def delete_request_def passes_def
      header_wire split: option.splits)

lemma Points_post_gate:
  "\<not> contains kw ''f'' \<Longrightarrow>
   gate_row w c (Points_post dumps c kw w)
     (checked_request dumps c [''id'', ''value''] kw ''POST''
        (''metrics/'' @ py_str (dict_get kw ''id'' PNone) @ ''/points''))"
  by (auto simp: Points_post_eq gate_row_def checked_request_def delete_request_def passes_def
      header_wire split: option.splits)

lemma Subscribers_post_gate:
  "\<not> contains kw ''f'' \<Longrightarrow>
   gate_row w c (Subscribers_post dumps c kw w)
     (checked_request dumps c [''email''] kw ''POST'' ''subscribers'')"
  by (auto simp: Subscribers_post_eq gate_row_def checked_request_def delete_request_def passes_def
      header_wire split: option.splits)

lemma Components_put_gate:
  "\<not> contains kw ''f'' \<Longrightarrow>
   gate_row w c (Components_put dumps c kw w)
     (checked_request dumps c [''id''] kw ''PUT''
        (''components/'' @ py_str (dict_get kw ''id'' PNone)))"
  by (auto simp: Components_put_eq gate_row_def checked_request_def delete_request_def passes_def
      header_wire split: option.splits)

lemma Groups_put_gate:
  "\<not> contains kw ''f'' \<Longrightarrow>
   gate_row w c (Groups_put dumps c kw w)
     (checked_request dumps c [''id''] kw ''PUT''
        (''components/groups/'' @ py_str (dict_get kw ''id'' PNone)))"
  by (auto simp: Groups_put_eq gate_row_def checked_request_def delete_request_def passes_def
      header_wire split: option.splits)

lemma Incidents_put_gate:
  "\<not> contains kw ''f'' \<Longrightarrow>
   gate_row w c (Incidents_put dumps c kw w)
     (checked_request dumps c [''id''] kw ''PUT''
        (''incidents/'' @ py_str (dict_get kw ''id'' PNone)))"
  by (auto simp: Incidents_put_eq gate_row_def checked_request_def delete_request_def passes_def
      header_wire split: option.splits)

lemma Components_delete_gate:
  "gate_row w c (Components_delete dumps c i w)
     (delete_request dumps c (''components/'' @ py_str i))"
  by (auto simp: Components_delete_eq gate_row_def checked_request_def delete_request_def passes_def
      header_wire split: option.splits)

lemma Groups_delete_gate:
  "gate_row w c (Groups_delete dumps c i w)
     (delete_request dumps c (''components/groups/'' @ py_str i))"
  by (auto simp: Groups_delete_eq gate_row_def checked_request_def delete_request_def passes_def
      header_wire split: option.splits)

lemma Incidents_delete_gate:
  "gate_row w c (Incidents_delete dumps c i w)
     (delete_request dumps c (''incidents/'' @ py_str i))"
  by (auto simp: Incidents_delete_eq gate_row_def checked_request_def delete_request_def passes_def
      header_wire split: option.splits)

lemma Metrics_delete_gate:
  "gate_row w c (Metrics_delete dumps c i w)
     (delete_request dumps c (''metrics/'' @ py_str i))"
  by (auto simp: Metrics_delete_eq gate_row_def checked_request_def delete_request_def passes_def
      header_wire split: option.splits)

lemma Points_delete_gate:
  "gate_row w c (Points_delete dumps c (i, j) w)
     (delete_request dumps c (''metrics/'' @ py_str i @ ''/points/'' @ py_str j))"
  by (auto simp: Points_delete_eq gate_row_def checked_request_def delete_request_def passes_def
      header_wire split: option.splits)

lemma Subscribers_delete_gate:
  "gate_row w c (Subscribers_delete dumps c i w)
     (delete_request dumps c (''subscribers/'' @ py_str i))"
  by (auto simp: Subscribers_delete_eq gate_row_def checked_request_def delete_request_def passes_def
      header_wire split: option.splits)

lemma post_rows_gate:
  "(out, True, req) \<in> set (post_rows dumps c kw w) \<Longrightarrow> \<not> contains kw ''f'' \<Longrightarrow>
   gate_row w c out req"
  by (auto simp: post_rows_def Components_post_gate [simplified] Groups_post_gate [simplified] Incidents_post_gate [simplified] Metrics_post_gate [simplified] Points_post_gate [simplified] Subscribers_post_gate [simplified])

lemma put_rows_gate:
  "(out, True, req) \<in> set (put_rows dumps c kw w) \<Longrightarrow> \<not> contains kw ''f'' \<Longrightarrow>
   gate_row w c out req"
  by (auto simp: put_rows_def Components_put_gate [simplified] Groups_put_gate [simplified] Incidents_put_gate [simplified])

lemma delete_rows_gate:
  "(out, True, req) \<in> set (delete_rows dumps c i j kw w) \<Longrightarrow> gate_row w c out req"
  by (auto simp: delete_rows_def Components_delete_gate [simplified] Groups_delete_gate [simplified] Incidents_delete_gate [simplified] Metrics_delete_gate [simplified] Points_delete_gate [simplified] Subscribers_delete_gate [simplified])

lemma mutating_rows_gate:
  "(out, True, req) \<in> set (post_rows dumps c kw w @ put_rows dumps c kw w
       @ delete_rows dumps c i j kw w) \<Longrightarrow> \<not> contains kw ''f'' \<Longrightarrow>
   gate_row w c out req"
  by (auto dest: post_rows_gate put_rows_gate delete_rows_gate)

lemma mutating_rows_inherited:
  "(out, False, req) \<in> set (post_rows dumps c kw w @ put_rows dumps c kw w
       @ delete_rows dumps c i j kw w) \<Longrightarrow> out = (Inl UnimplementedException, c, w)"
  by (auto simp: post_rows_def put_rows_def delete_rows_def Ping_post_eq Version_post_eq
      Ping_put_eq Version_put_eq Metrics_put_eq Points_put_eq Subscribers_put_eq Ping_delete_eq
      Version_delete_eq)


lemma MissingArgument_not_Auth_sym [simp]: "MissingArgument a \<noteq> AuthRequired"
  by (simp add: MissingArgument_def AuthRequired_def)

lemma sends_None_iff: "sends w c f out None \<longleftrightarrow> (\<exists>e. out = (Inl e, c, w))"
  by (simp add: sends_def)

lemma sends_Some_iff: "sends w c f out (Some call) \<longleftrightarrow> out = exchange w call c f"
  by (simp add: sends_def)








section \<open>Properties\<close>

text \<open>
  C1, as the code has it: \<^verbatim>\<open>get\<close> with an identifier issues one \<^verbatim>\<open>GET\<close> request to the
  path \<^verbatim>\<open><resource>/<id>\<close> for Components, Groups, Incidents and Metrics, and to
  \<^verbatim>\<open>metrics/<metric_id>/points\<close> for Points. Without an identifier, \<^verbatim>\<open>get\<close> on Components,
  Groups, Incidents and Metrics issues one \<^verbatim>\<open>GET\<close> request to the bare collection path,
  and the caller's keyword arguments travel JSON-encoded as the \<^verbatim>\<open>data\<close> of the request,
  its body: the URL is the endpoint and the path, and the request has no \<^verbatim>\<open>params\<close>, the
  query string of \<^verbatim>\<open>requests\<close>. Points has no bare collection: without a \<^verbatim>\<open>metric_id\<close> its
  \<^verbatim>\<open>get\<close> raises before any request.
\<close>

theorem get_requests:
  "(i \<noteq> PNone \<longrightarrow>
      sent (world_of (Components_get dumps c i kw w)) =
        sent w @ [wire dumps c ''GET'' (''components/'' @ py_str i) None] \<and>
      sent (world_of (Groups_get dumps c i kw w)) =
        sent w @ [wire dumps c ''GET'' (''components/groups/'' @ py_str i) (Some kw)] \<and>
      sent (world_of (Incidents_get dumps c i kw w)) =
        sent w @ [wire dumps c ''GET'' (''incidents/'' @ py_str i) (Some kw)] \<and>
      sent (world_of (Metrics_get dumps c i kw w)) =
        sent w @ [wire dumps c ''GET'' (''metrics/'' @ py_str i) (Some kw)] \<and>
      sent (world_of (Points_get dumps c i kw w)) =
        sent w @ [wire dumps c ''GET'' (''metrics/'' @ py_str i @ ''/points'') (Some kw)]) \<and>
   sent (world_of (Components_get dumps c PNone kw w)) =
     sent w @ [wire dumps c ''GET'' ''components'' (Some kw)] \<and>
   sent (world_of (Groups_get dumps c PNone kw w)) =
     sent w @ [wire dumps c ''GET'' ''components/groups'' (Some kw)] \<and>
   sent (world_of (Incidents_get dumps c PNone kw w)) =
     sent w @ [wire dumps c ''GET'' ''incidents'' (Some kw)] \<and>
   sent (world_of (Metrics_get dumps c PNone kw w)) =
     sent w @ [wire dumps c ''GET'' ''metrics'' (Some kw)] \<and>
   Points_get dumps c PNone kw w =
     (Inl (AttributeError ''metric_id is required to get metric points.''), c, w) \<and>
   url (wire dumps c m path data) = py_str (endpoint c) @ ''/'' @ path \<and>
   kw_params (call_kwargs (wire dumps c m path data)) = None \<and>
   kw_data (call_kwargs (wire dumps c m path (Some kw))) =
     Some (Val (PStr (dumps None (dict_obj kw))))"
  by (simp add: Components_get_eq Groups_get_eq Incidents_get_eq Metrics_get_eq Points_get_eq)

theorem get_requests_witness:
  "PInt 5 \<noteq> PNone \<and>
   map url (sent (world_of (Groups_get json_dumps example_client (PInt 5) []
       (stub_world 200 (Some echo)))))
     = [''http://host/api/v1/components/groups/5''] \<and>
   map url (sent (world_of (Metrics_get json_dumps example_client PNone [(''per_page'', PInt 1)]
       (stub_world 200 (Some echo)))))
     = [''http://host/api/v1/metrics'']"
proof -
  have s: "sent (stub_world 200 (Some echo)) = []"
    by (simp add: stub_world_def)
  have e: "endpoint example_client = PStr ''http://host/api/v1''"
    by (simp add: example_client_def)
  show ?thesis
    using get_requests [of "PInt 5" json_dumps example_client "[]" "stub_world 200 (Some echo)"]
      get_requests [of "PInt 5" json_dumps example_client "[(''per_page'', PInt 1)]"
        "stub_world 200 (Some echo)"]
    by (simp add: s e)
qed

theorem get_requests_counterexample:
  "map (kw_params \<circ> call_kwargs)
     (sent (world_of (Components_get json_dumps example_client PNone [(''per_page'', PInt 1)]
        (stub_world 200 (Some echo)))))
     = [None] \<and>
   map url
     (sent (world_of (Components_get json_dumps example_client PNone [(''per_page'', PInt 1)]
        (stub_world 200 (Some echo)))))
     = [''http://host/api/v1/components''] \<and>
   map (kw_data \<circ> call_kwargs)
     (sent (world_of (Components_get json_dumps example_client PNone [(''per_page'', PInt 1)]
        (stub_world 200 (Some echo)))))
     = [Some (Val (PStr (json_dumps None (dict_obj [(''per_page'', PInt 1)]))))] \<and>
   sent (world_of (Points_get json_dumps example_client PNone [(''per_page'', PInt 1)]
        (stub_world 200 (Some echo))))
     = []"
  by (simp add: Components_get_eq Points_get_eq)
    (simp add: example_client_def stub_world_def)

text \<open>
  C2, as the code has it, for keyword arguments without a key named \<^verbatim>\<open>f\<close>: the mutating
  operations a resource defines carry the decorator; on an instance without \<^verbatim>\<open>api_token\<close>
  each fails with the \<^verbatim>\<open>AttributeError\<close> that stands for the specification's
  \<^verbatim>\<open>AuthRequired\<close>, the instance and the world untouched, so no request is issued; on an
  instance with a token it goes past the gate: it reports a missing argument or sends
  its request. The mutating operations a resource only inherits (all three on Ping and
  Version, \<^verbatim>\<open>put\<close> on Metrics, Points and Subscribers) raise \<open>UnimplementedException\<close> with or
  without a token, also without a request.
\<close>

theorem token_gate:
  "(out, decorated, req) \<in> set (post_rows dumps c kw w @ put_rows dumps c kw w
       @ delete_rows dumps c i j kw w) \<Longrightarrow>
   \<not> contains kw ''f'' \<Longrightarrow>
   (decorated \<longrightarrow>
      (api_token c = PNone \<longrightarrow> out = (Inl AuthRequired, c, w)) \<and>
      (api_token c \<noteq> PNone \<longrightarrow>
         out \<noteq> (Inl AuthRequired, c, w) \<and>
         (req = None \<longrightarrow> (\<exists>arg. out = (Inl (MissingArgument arg), c, w))) \<and>
         (req = Some call \<longrightarrow> sent (world_of out) = sent w @ [call]))) \<and>
   (\<not> decorated \<longrightarrow> out = (Inl UnimplementedException, c, w))"
proof -
  assume r: "(out, decorated, req) \<in> set (post_rows dumps c kw w @ put_rows dumps c kw w
       @ delete_rows dumps c i j kw w)" and f: "\<not> contains kw ''f''"
  have 1: "\<not> decorated \<longrightarrow> out = (Inl UnimplementedException, c, w)"
  proof
    assume "\<not> decorated"
    with r have "(out, False, req) \<in> set (post_rows dumps c kw w @ put_rows dumps c kw w
       @ delete_rows dumps c i j kw w)"
      by simp
    then show "out = (Inl UnimplementedException, c, w)"
      by (rule mutating_rows_inherited)
  qed
  have 2: "decorated \<longrightarrow> gate_row w c out req"
  proof
    assume "decorated"
    with r have "(out, True, req) \<in> set (post_rows dumps c kw w @ put_rows dumps c kw w
       @ delete_rows dumps c i j kw w)"
      by simp
    then show "gate_row w c out req"
      using f by (rule mutating_rows_gate)
  qed
  have 3: "gate_row w c out req \<longrightarrow>
      (api_token c = PNone \<longrightarrow> out = (Inl AuthRequired, c, w)) \<and>
      (api_token c \<noteq> PNone \<longrightarrow>
         out \<noteq> (Inl AuthRequired, c, w) \<and>
         (req = None \<longrightarrow> (\<exists>arg. out = (Inl (MissingArgument arg), c, w))) \<and>
         (req = Some call \<longrightarrow> sent (world_of out) = sent w @ [call]))"
    by (auto simp: gate_row_def split: if_splits option.splits)
  from 1 2 3 show ?thesis by blast
qed

theorem token_gate_witness:
  "(Groups_post json_dumps anonymous_client [(''name'', PStr ''G'')] (stub_world 200 None),
      True, None)
     \<in> set (post_rows json_dumps anonymous_client [(''name'', PStr ''G'')] (stub_world 200 None)
        @ put_rows json_dumps anonymous_client [(''name'', PStr ''G'')] (stub_world 200 None)
        @ delete_rows json_dumps anonymous_client (PInt 1) (PInt 2) [(''name'', PStr ''G'')]
           (stub_world 200 None)) \<and>
   \<not> contains [(''name'', PStr ''G'')] ''f'' \<and>
   api_token anonymous_client = PNone \<and>
   Groups_post json_dumps anonymous_client [(''name'', PStr ''G'')] (stub_world 200 None)
     = (Inl AuthRequired, anonymous_client, stub_world 200 None) \<and>
   (Groups_post json_dumps example_client [(''name'', PStr ''G'')] (stub_world 200 None),
      True,
      Some (wire json_dumps example_client ''POST'' ''components/groups''
        (Some [(''name'', PStr ''G'')])))
     \<in> set (post_rows json_dumps example_client [(''name'', PStr ''G'')] (stub_world 200 None)
        @ put_rows json_dumps example_client [(''name'', PStr ''G'')] (stub_world 200 None)
        @ delete_rows json_dumps example_client (PInt 1) (PInt 2) [(''name'', PStr ''G'')]
           (stub_world 200 None)) \<and>
   api_token example_client \<noteq> PNone \<and>
   sent (world_of (Groups_post json_dumps example_client [(''name'', PStr ''G'')]
       (stub_world 200 None)))
     = [wire json_dumps example_client ''POST'' ''components/groups''
          (Some [(''name'', PStr ''G'')])] \<and>
   (Points_put anonymous_client [(''name'', PStr ''G'')] (stub_world 200 None), False, None)
     \<in> set (post_rows json_dumps anonymous_client [(''name'', PStr ''G'')] (stub_world 200 None)
        @ put_rows json_dumps anonymous_client [(''name'', PStr ''G'')] (stub_world 200 None)
        @ delete_rows json_dumps anonymous_client (PInt 1) (PInt 2) [(''name'', PStr ''G'')]
           (stub_world 200 None)) \<and>
   Points_put anonymous_client [(''name'', PStr ''G'')] (stub_world 200 None)
     = (Inl UnimplementedException, anonymous_client, stub_world 200 None)"
proof -
  have t1: "api_token anonymous_client = PNone"
    by (simp add: anonymous_client_def)
  have t2: "api_token example_client \<noteq> PNone"
    by (simp add: example_client_def)
  have f: "\<not> contains [(''name'', PStr ''G'')] ''f''"
    by simp
  have m1: "(Groups_post json_dumps anonymous_client [(''name'', PStr ''G'')]
       (stub_world 200 None), True, None)
     \<in> set (post_rows json_dumps anonymous_client [(''name'', PStr ''G'')] (stub_world 200 None)
        @ put_rows json_dumps anonymous_client [(''name'', PStr ''G'')] (stub_world 200 None)
        @ delete_rows json_dumps anonymous_client (PInt 1) (PInt 2) [(''name'', PStr ''G'')]
           (stub_world 200 None))"
    by (simp add: post_rows_def checked_request_def passes_def t1)
  have m2: "(Groups_post json_dumps example_client [(''name'', PStr ''G'')]
       (stub_world 200 None), True,
      Some (wire json_dumps example_client ''POST'' ''components/groups''
        (Some [(''name'', PStr ''G'')])))
     \<in> set (post_rows json_dumps example_client [(''name'', PStr ''G'')] (stub_world 200 None)
        @ put_rows json_dumps example_client [(''name'', PStr ''G'')] (stub_world 200 None)
        @ delete_rows json_dumps example_client (PInt 1) (PInt 2) [(''name'', PStr ''G'')]
           (stub_world 200 None))"
    by (simp add: post_rows_def checked_request_def passes_def first_missing_def t2)
  have m3: "(Points_put anonymous_client [(''name'', PStr ''G'')] (stub_world 200 None),
      False, None)
     \<in> set (post_rows json_dumps anonymous_client [(''name'', PStr ''G'')] (stub_world 200 None)
        @ put_rows json_dumps anonymous_client [(''name'', PStr ''G'')] (stub_world 200 None)
        @ delete_rows json_dumps anonymous_client (PInt 1) (PInt 2) [(''name'', PStr ''G'')]
           (stub_world 200 None))"
    by (simp add: put_rows_def)
  have s: "sent (stub_world 200 None) = []"
    by (simp add: stub_world_def)
  show ?thesis
    using m1 m2 m3 t1 t2 f
      token_gate [OF m1 f]
      token_gate [OF m2 f, of "wire json_dumps example_client ''POST'' ''components/groups''
        (Some [(''name'', PStr ''G'')])"]
      token_gate [OF m3 f]
    by (simp add: s)
qed

theorem token_gate_counterexample:
  "api_token anonymous_client = PNone \<and>
   Metrics_put anonymous_client [(''id'', PInt 1)] (stub_world 200 None) =
     (Inl UnimplementedException, anonymous_client, stub_world 200 None) \<and>
   UnimplementedException \<noteq> AuthRequired \<and>
   Groups_post json_dumps anonymous_client [(''name'', PStr ''G''), (''f'', PInt 1)]
       (stub_world 200 None) =
     (Inl TypeError, anonymous_client, stub_world 200 None) \<and>
   TypeError \<noteq> AuthRequired"
  by (simp add: Metrics_put_eq Groups_post_eq anonymous_client_def)



text \<open>
  C4, as the code has it: on an instance with a token and for keyword arguments without
  a key named \<^verbatim>\<open>f\<close>, every operation with a list of required keys checks the arguments as
  they stand after the defaults are set. If a required key is absent then, the call
  fails with the \<^verbatim>\<open>KeyError\<close> that stands for the specification's \<^verbatim>\<open>MissingArgument\<close>,
  naming the first absent key in the order of the list, and the instance and the world
  are untouched: no request is dispatched. Otherwise exactly one request goes to the
  path of the resource, with those arguments as data. A key the caller leaves out and a
  default supplies is not missing.
\<close>

theorem required_args_checked:
  "api_token c \<noteq> PNone \<Longrightarrow> \<not> contains kw ''f'' \<Longrightarrow>
   checked dumps c w [''name'', ''status'', ''enabled''] (setdefault ''enabled'' (PBool True) kw)
     ''POST'' ''components'' (Components_post dumps c kw w) \<and>
   checked dumps c w [''id''] kw
     ''PUT'' (''components/'' @ py_str (dict_get kw ''id'' PNone)) (Components_put dumps c kw w) \<and>
   checked dumps c w [''name''] kw
     ''POST'' ''components/groups'' (Groups_post dumps c kw w) \<and>
   checked dumps c w [''id''] kw
     ''PUT'' (''components/groups/'' @ py_str (dict_get kw ''id'' PNone))
     (Groups_put dumps c kw w) \<and>
   checked dumps c w [''name'', ''message'', ''status'', ''visible'', ''notify'']
     (setdefault ''notify'' (PBool False) (setdefault ''visible'' (PBool True) kw))
     ''POST'' ''incidents'' (Incidents_post dumps c kw w) \<and>
   checked dumps c w [''id''] kw
     ''PUT'' (''incidents/'' @ py_str (dict_get kw ''id'' PNone)) (Incidents_put dumps c kw w) \<and>
   checked dumps c w [''name'', ''suffix'', ''description'', ''default_value'']
     (setdefault ''default_value'' (PInt 0) kw)
     ''POST'' ''metrics'' (Metrics_post dumps c kw w) \<and>
   checked dumps c w [''id'', ''value''] kw
     ''POST'' (''metrics/'' @ py_str (dict_get kw ''id'' PNone) @ ''/points'')
     (Points_post dumps c kw w) \<and>
   checked dumps c w [''email''] kw
     ''POST'' ''subscribers'' (Subscribers_post dumps c kw w)"
proof -
  assume t: "api_token c \<noteq> PNone" and f: "\<not> contains kw ''f''"
  have 1: "checked dumps c w [''name'', ''status'', ''enabled'']
     (setdefault ''enabled'' (PBool True) kw)
     ''POST'' ''components'' (Components_post dumps c kw w)"
    using t f by (simp add: checked_def Components_post_eq split: option.splits)
  have 2: "checked dumps c w [''id''] kw
     ''PUT'' (''components/'' @ py_str (dict_get kw ''id'' PNone)) (Components_put dumps c kw w)"
    using t f by (simp add: checked_def Components_put_eq split: option.splits)
  have 3: "checked dumps c w [''name''] kw
     ''POST'' ''components/groups'' (Groups_post dumps c kw w)"
    using t f by (simp add: checked_def Groups_post_eq split: option.splits)
  have 4: "checked dumps c w [''id''] kw
     ''PUT'' (''components/groups/'' @ py_str (dict_get kw ''id'' PNone))
     (Groups_put dumps c kw w)"
    using t f by (simp add: checked_def Groups_put_eq split: option.splits)
  have 5: "checked dumps c w [''name'', ''message'', ''status'', ''visible'', ''notify'']
     (setdefault ''notify'' (PBool False) (setdefault ''visible'' (PBool True) kw))
     ''POST'' ''incidents'' (Incidents_post dumps c kw w)"
    using t f by (simp add: checked_def Incidents_post_eq split: option.splits)
  have 6: "checked dumps c w [''id''] kw
     ''PUT'' (''incidents/'' @ py_str (dict_get kw ''id'' PNone)) (Incidents_put dumps c kw w)"
    using t f by (simp add: checked_def Incidents_put_eq split: option.splits)
  have 7: "checked dumps c w [''name'', ''suffix'', ''description'', ''default_value'']
     (setdefault ''default_value'' (PInt 0) kw)
     ''POST'' ''metrics'' (Metrics_post dumps c kw w)"
    using t f by (simp add: checked_def Metrics_post_eq split: option.splits)
  have 8: "checked dumps c w [''id'', ''value''] kw
     ''POST'' (''metrics/'' @ py_str (dict_get kw ''id'' PNone) @ ''/points'')
     (Points_post dumps c kw w)"
    using t f by (simp add: checked_def Points_post_eq split: option.splits)
  have 9: "checked dumps c w [''email''] kw
     ''POST'' ''subscribers'' (Subscribers_post dumps c kw w)"
    using t f by (simp add: checked_def Subscribers_post_eq split: option.splits)
  from 1 2 3 4 5 6 7 8 9 show ?thesis by blast
qed

theorem required_args_checked_witness:
  "api_token example_client \<noteq> PNone \<and>
   \<not> contains [(''status'', PInt 1), (''visible'', PBool False)] ''f'' \<and>
   Incidents_post json_dumps example_client [(''status'', PInt 1), (''visible'', PBool False)]
       (stub_world 200 (Some echo))
     = (Inl (MissingArgument ''name''), example_client, stub_world 200 (Some echo)) \<and>
   Components_put json_dumps example_client [(''name'', PStr ''X'')] (stub_world 200 (Some echo))
     = (Inl (MissingArgument ''id''), example_client, stub_world 200 (Some echo)) \<and>
   map url (sent (world_of (Points_post json_dumps example_client
       [(''id'', PInt 3), (''value'', PInt 5)] (stub_world 200 (Some echo)))))
     = [''http://host/api/v1/metrics/3/points''] \<and>
   map http_method (sent (world_of (Points_post json_dumps example_client
       [(''id'', PInt 3), (''value'', PInt 5)] (stub_world 200 (Some echo)))))
     = [''POST'']"
proof -
  have t: "api_token example_client \<noteq> PNone"
    by (simp add: example_client_def)
  have s: "sent (stub_world 200 (Some echo)) = []"
    by (simp add: stub_world_def)
  have e: "endpoint example_client = PStr ''http://host/api/v1''"
    by (simp add: example_client_def)
  have f1: "\<not> contains [(''status'', PInt 1), (''visible'', PBool False)] ''f''"
    and f2: "\<not> contains [(''name'', PStr ''X'')] ''f''"
    and f3: "\<not> contains [(''id'', PInt 3), (''value'', PInt 5)] ''f''"
    by simp_all
  show ?thesis
    using t f1
      required_args_checked [OF t f1, of json_dumps "stub_world 200 (Some echo)"]
      required_args_checked [OF t f2, of json_dumps "stub_world 200 (Some echo)"]
      required_args_checked [OF t f3, of json_dumps "stub_world 200 (Some echo)"]
    by (simp add: checked_def first_missing_def setdefault_def dict_get_def s e)
qed

theorem required_args_checked_counterexample:
  "first_missing [''name'', ''status'', ''enabled''] [(''name'', PStr ''X''), (''status'', PInt 1)]
     = Some ''enabled'' \<and>
   result_of (Components_post json_dumps example_client
       [(''name'', PStr ''X''), (''status'', PInt 1)] (stub_world 200 (Some echo)))
     = Inr (PStr (json_dumps (Some 2) echo)) \<and>
   map url (sent (world_of (Components_post json_dumps example_client
       [(''name'', PStr ''X''), (''status'', PInt 1)] (stub_world 200 (Some echo)))))
     = [''http://host/api/v1/components''] \<and>
   first_missing [''name''] [] = Some ''name'' \<and>
   Groups_post json_dumps anonymous_client [] (stub_world 200 (Some echo))
     = (Inl AuthRequired, anonymous_client, stub_world 200 (Some echo)) \<and>
   AuthRequired \<noteq> MissingArgument ''name'' \<and>
   first_missing [''name''] [(''name'', PStr ''G''), (''f'', PInt 1)] = None \<and>
   Groups_post json_dumps example_client [(''name'', PStr ''G''), (''f'', PInt 1)]
       (stub_world 200 (Some echo))
     = (Inl TypeError, example_client, stub_world 200 (Some echo))"
  by (simp add: first_missing_def Components_post_eq Groups_post_eq example_client_def
      anonymous_client_def setdefault_def exchange_def stub_world_def
      ok_status stub_response_def pretty_def decode_body_def)




text \<open>
  C6: every \<^verbatim>\<open>get\<close>, \<^verbatim>\<open>post\<close> and \<^verbatim>\<open>put\<close> of every resource either sends no request, and
  then raises with the world as before, or sends the one request of its row; when the
  remote service answers that request with a success status, the call returns the string
  \<^verbatim>\<open>json.dumps\<close> gives with \<^verbatim>\<open>indent=2\<close> for the decoded body, and for \<^verbatim>\<open>None\<close> when the body
  does not decode as JSON: no exception is raised. On an empty body the result is the
  string \<^verbatim>\<open>null\<close>.
\<close>

theorem success_returns_pretty_json:
  "(out, decorated, req) \<in> set (get_rows dumps c i kw w @ post_rows dumps c kw w
       @ put_rows dumps c kw w) \<Longrightarrow>
   (req = None \<longrightarrow> world_of out = w \<and> (\<exists>e. result_of out = Inl e)) \<and>
   (req = Some call \<longrightarrow> remote w (sent w) call = Inr resp \<longrightarrow> ok resp \<longrightarrow>
      out = (Inr (PStr (dumps (Some 2)
               (case json_value resp of None \<Rightarrow> Val PNone | Some body \<Rightarrow> body))),
             c, w\<lparr>sent := sent w @ [call]\<rparr>))"
proof -
  assume "(out, decorated, req) \<in> set (get_rows dumps c i kw w @ post_rows dumps c kw w
       @ put_rows dumps c kw w)"
  then have s: "sends w c (pretty dumps) out req"
    by (auto dest: get_rows_sends post_rows_sends put_rows_sends)
  have 1: "req = None \<longrightarrow> world_of out = w \<and> (\<exists>e. result_of out = Inl e)"
    using s by (auto simp: sends_None_iff)
  have 2: "req = Some call \<longrightarrow> remote w (sent w) call = Inr resp \<longrightarrow> ok resp \<longrightarrow>
      out = (Inr (PStr (dumps (Some 2)
               (case json_value resp of None \<Rightarrow> Val PNone | Some body \<Rightarrow> body))),
             c, w\<lparr>sent := sent w @ [call]\<rparr>)"
    using s by (auto simp: sends_Some_iff exchange_answer pretty_def decode_body_def)
  from 1 2 show ?thesis by blast
qed

theorem success_returns_pretty_json_witness:
  "(Ping_get json_dumps example_client [] (stub_world 200 None), False,
      Some (wire json_dumps example_client ''GET'' ''ping'' None))
     \<in> set (get_rows json_dumps example_client PNone [] (stub_world 200 None)
        @ post_rows json_dumps example_client [] (stub_world 200 None)
        @ put_rows json_dumps example_client [] (stub_world 200 None)) \<and>
   remote (stub_world 200 None) (sent (stub_world 200 None))
       (wire json_dumps example_client ''GET'' ''ping'' None)
     = Inr (stub_response 200 None) \<and>
   ok (stub_response 200 None) \<and>
   Ping_get json_dumps example_client [] (stub_world 200 None)
     = (Inr (PStr ''null''), example_client,
        (stub_world 200 None)\<lparr>sent := [wire json_dumps example_client ''GET'' ''ping'' None]\<rparr>) \<and>
   (Groups_post json_dumps example_client [(''name'', PStr ''X'')] (stub_world 201 (Some echo)),
      True,
      Some (wire json_dumps example_client ''POST'' ''components/groups''
        (Some [(''name'', PStr ''X'')])))
     \<in> set (get_rows json_dumps example_client PNone [(''name'', PStr ''X'')]
           (stub_world 201 (Some echo))
        @ post_rows json_dumps example_client [(''name'', PStr ''X'')] (stub_world 201 (Some echo))
        @ put_rows json_dumps example_client [(''name'', PStr ''X'')]
           (stub_world 201 (Some echo))) \<and>
   remote (stub_world 201 (Some echo)) (sent (stub_world 201 (Some echo)))
       (wire json_dumps example_client ''POST'' ''components/groups''
          (Some [(''name'', PStr ''X'')]))
     = Inr (stub_response 201 (Some echo)) \<and>
   ok (stub_response 201 (Some echo)) \<and>
   Groups_post json_dumps example_client [(''name'', PStr ''X'')] (stub_world 201 (Some echo))
     = (Inr (PStr (json_dumps (Some 2) echo)), example_client,
        (stub_world 201 (Some echo))\<lparr>sent :=
           [wire json_dumps example_client ''POST'' ''components/groups''
              (Some [(''name'', PStr ''X'')])]\<rparr>)"
proof -
  have m1: "(Ping_get json_dumps example_client [] (stub_world 200 None), False,
      Some (wire json_dumps example_client ''GET'' ''ping'' None))
     \<in> set (get_rows json_dumps example_client PNone [] (stub_world 200 None)
        @ post_rows json_dumps example_client [] (stub_world 200 None)
        @ put_rows json_dumps example_client [] (stub_world 200 None))"
    by (simp add: get_rows_def)
  have a1: "remote (stub_world 200 None) (sent (stub_world 200 None))
       (wire json_dumps example_client ''GET'' ''ping'' None)
     = Inr (stub_response 200 None)"
    by (simp add: stub_world_def)
  have k1: "ok (stub_response 200 None)"
    by (simp add: ok_status stub_response_def)
  have m2: "(Groups_post json_dumps example_client [(''name'', PStr ''X'')]
       (stub_world 201 (Some echo)), True,
      Some (wire json_dumps example_client ''POST'' ''components/groups''
        (Some [(''name'', PStr ''X'')])))
     \<in> set (get_rows json_dumps example_client PNone [(''name'', PStr ''X'')]
           (stub_world 201 (Some echo))
        @ post_rows json_dumps example_client [(''name'', PStr ''X'')] (stub_world 201 (Some echo))
        @ put_rows json_dumps example_client [(''name'', PStr ''X'')]
           (stub_world 201 (Some echo)))"
    by (simp add: post_rows_def checked_request_def passes_def first_missing_def
        example_client_def)
  have a2: "remote (stub_world 201 (Some echo)) (sent (stub_world 201 (Some echo)))
       (wire json_dumps example_client ''POST'' ''components/groups''
          (Some [(''name'', PStr ''X'')]))
     = Inr (stub_response 201 (Some echo))"
    by (simp add: stub_world_def)
  have k2: "ok (stub_response 201 (Some echo))"
    by (simp add: ok_status stub_response_def)
  have s: "sent (stub_world 200 None) = []" "sent (stub_world 201 (Some echo)) = []"
    by (simp_all add: stub_world_def)
  have j: "json_value (stub_response 200 None) = None"
    "json_value (stub_response 201 (Some echo)) = Some echo"
    "json_dumps (Some 2) (Val PNone) = ''null''"
    by (simp_all add: stub_response_def json_dumps_def)
  show ?thesis
    using m1 a1 k1 m2 a2 k2
      success_returns_pretty_json [OF m1,
        of "wire json_dumps example_client ''GET'' ''ping'' None" "stub_response 200 None"]
      success_returns_pretty_json [OF m2,
        of "wire json_dumps example_client ''POST'' ''components/groups''
          (Some [(''name'', PStr ''X'')])" "stub_response 201 (Some echo)"]
    by (simp add: s j)
qed

text \<open>
  C7: \<^verbatim>\<open>get\<close> on Points without a \<^verbatim>\<open>metric_id\<close> fails before any request is dispatched,
  with the \<^verbatim>\<open>AttributeError\<close> that stands for the specification's \<^verbatim>\<open>MissingArgument\<close>:
  the instance and the world are as before. With a \<^verbatim>\<open>metric_id\<close> it issues one \<^verbatim>\<open>GET\<close>
  request to the path \<^verbatim>\<open>metrics/<metric_id>/points\<close> under the endpoint.
\<close>

theorem Points_get_metric_id:
  "Points_get dumps c PNone kw w =
     (Inl (AttributeError ''metric_id is required to get metric points.''), c, w) \<and>
   (metric_id \<noteq> PNone \<longrightarrow>
      sent (world_of (Points_get dumps c metric_id kw w)) =
        sent w @ [wire dumps c ''GET'' (''metrics/'' @ py_str metric_id @ ''/points'') (Some kw)])"
  by (simp add: Points_get_eq)

theorem Points_get_metric_id_witness:
  "PInt 7 \<noteq> PNone \<and>
   map url (sent (world_of (Points_get json_dumps example_client (PInt 7) []
     (stub_world 200 (Some echo))))) = [''http://host/api/v1/metrics/7/points''] \<and>
   map http_method (sent (world_of (Points_get json_dumps example_client (PInt 7) []
     (stub_world 200 (Some echo))))) = [''GET'']"
  using Points_get_metric_id [of json_dumps example_client "[]" "stub_world 200 (Some echo)" "PInt 7"]
  by (simp add: wire_def example_client_def stub_world_def)

text \<open>
  C8: every constructor, of \<open>CachetClient\<close>, of the base class and of each resource, fails
  on a configuration without the key \<^verbatim>\<open>endpoint\<close> with the \<^verbatim>\<open>KeyError\<close> that stands for
  the specification's \<^verbatim>\<open>ConfigurationError\<close>, and leaves the world as it was: no request
  is issued. With \<^verbatim>\<open>endpoint\<close> present it succeeds, again without a request, and
  \<^verbatim>\<open>api_token\<close>, \<^verbatim>\<open>timeout\<close> and \<^verbatim>\<open>verify\<close> are the configured values or \<^verbatim>\<open>None\<close>.
\<close>

theorem init_requires_endpoint:
  "init \<in> set constructors \<Longrightarrow>
   (\<not> contains kw ''endpoint'' \<longrightarrow> init kw w = (Inl ConfigurationError, w)) \<and>
   (contains kw ''endpoint'' \<longrightarrow>
      (\<exists>c. init kw w = (Inr c, w) \<and>
           user_agent c = ''python-cachetclient'' \<and>
           map_of kw ''endpoint'' = Some (endpoint c) \<and>
           api_token c = dict_get kw ''api_token'' PNone \<and>
           timeout c = dict_get kw ''timeout'' PNone \<and>
           verify c = dict_get kw ''verify'' PNone))"
  by (auto simp: constructors_def CachetClient_init_def Cachet_init_def Ping_init_def
      Version_init_def Components_init_def Groups_init_def Incidents_init_def Metrics_init_def
      Points_init_def Subscribers_init_def ConfigurationError_def contains_map_of
      split: option.splits)

theorem init_requires_endpoint_witness:
  "Components_init \<in> set constructors \<and>
   \<not> contains [(''api_token'', PStr ''t'')] ''endpoint'' \<and>
   Components_init [(''api_token'', PStr ''t'')] (stub_world 200 None) =
     (Inl ConfigurationError, stub_world 200 None) \<and>
   contains [(''endpoint'', PStr ''http://host/api/v1'')] ''endpoint'' \<and>
   Components_init [(''endpoint'', PStr ''http://host/api/v1'')] (stub_world 200 None) =
     (Inr anonymous_client, stub_world 200 None)"
  using init_requires_endpoint [of Components_init "[(''api_token'', PStr ''t'')]" "stub_world 200 None"]
    init_requires_endpoint [of Components_init "[(''endpoint'', PStr ''http://host/api/v1'')]"
      "stub_world 200 None"]
  by (auto simp: constructors_def contains_def dict_get_def anonymous_client_def example_client_def)

text \<open>
  C9: every operation of every resource, whether it returns or raises, leaves the
  instance with the \<^verbatim>\<open>endpoint\<close>, \<^verbatim>\<open>api_token\<close>, \<^verbatim>\<open>timeout\<close> and \<^verbatim>\<open>verify\<close> it had. The
  session \<^verbatim>\<open>self.http\<close> is part of the world, whose history grows with each request.
\<close>

theorem configuration_unchanged:
  "out \<in> set (get_calls dumps c i kw w @ post_calls dumps c kw w @ put_calls dumps c kw w
       @ delete_calls dumps c i j kw w) \<Longrightarrow>
   endpoint (self_of out) = endpoint c \<and> api_token (self_of out) = api_token c \<and>
   timeout (self_of out) = timeout c \<and> verify (self_of out) = verify c"
proof -
  assume "out \<in> set (get_calls dumps c i kw w @ post_calls dumps c kw w @ put_calls dumps c kw w
       @ delete_calls dumps c i j kw w)"
  then have "self_of out = c"
    by (auto dest: get_calls_ends post_calls_ends put_calls_ends delete_calls_ends ends_self)
  then show ?thesis by simp
qed

theorem configuration_unchanged_witness:
  "Components_post json_dumps example_client [(''name'', PStr ''X''), (''status'', PInt 1)]
       (stub_world 200 (Some echo))
     \<in> set (get_calls json_dumps example_client (PInt 1) [(''name'', PStr ''X''), (''status'', PInt 1)]
           (stub_world 200 (Some echo))
        @ post_calls json_dumps example_client [(''name'', PStr ''X''), (''status'', PInt 1)]
           (stub_world 200 (Some echo))
        @ put_calls json_dumps example_client [(''name'', PStr ''X''), (''status'', PInt 1)]
           (stub_world 200 (Some echo))
        @ delete_calls json_dumps example_client (PInt 1) (PInt 2)
           [(''name'', PStr ''X''), (''status'', PInt 1)] (stub_world 200 (Some echo))) \<and>
   endpoint (self_of (Components_post json_dumps example_client
       [(''name'', PStr ''X''), (''status'', PInt 1)] (stub_world 200 (Some echo))))
     = PStr ''http://host/api/v1'' \<and>
   api_token (self_of (Components_post json_dumps example_client
       [(''name'', PStr ''X''), (''status'', PInt 1)] (stub_world 200 (Some echo))))
     = PStr ''t''"
proof -
  have m: "Components_post json_dumps example_client [(''name'', PStr ''X''), (''status'', PInt 1)]
       (stub_world 200 (Some echo))
     \<in> set (get_calls json_dumps example_client (PInt 1) [(''name'', PStr ''X''), (''status'', PInt 1)]
           (stub_world 200 (Some echo))
        @ post_calls json_dumps example_client [(''name'', PStr ''X''), (''status'', PInt 1)]
           (stub_world 200 (Some echo))
        @ put_calls json_dumps example_client [(''name'', PStr ''X''), (''status'', PInt 1)]
           (stub_world 200 (Some echo))
        @ delete_calls json_dumps example_client (PInt 1) (PInt 2)
           [(''name'', PStr ''X''), (''status'', PInt 1)] (stub_world 200 (Some echo)))"
    by (simp add: post_calls_def)
  show ?thesis
    using m configuration_unchanged [OF m] by (simp add: example_client_def)
qed



end
